theory Spec2Isabelle
  imports Complex_Main
begin

section \<open>Python and numpy primitives\<close>

text \<open>
  Samples are modelled as real numbers: the arithmetic of the program is carried out
  exactly, without the rounding of IEEE doubles. Exceptions are values of type
  \<open>error\<close>; a fallible operation returns \<open>error + 'a\<close> with \<open>Inl\<close> the exception.
\<close>

datatype error =
  ValueError | NameError string | IndexError | KeyError | ZeroDivisionError | OverflowError
  | AttributeError | TypeError

definition bind_err :: "error + 'a \<Rightarrow> ('a \<Rightarrow> error + 'b) \<Rightarrow> error + 'b" where
  "bind_err m f = (case m of Inl e \<Rightarrow> Inl e | Inr x \<Rightarrow> f x)"

definition py_int :: "real \<Rightarrow> int" where
  \<comment> \<open>\<open>int(x)\<close> on a float: truncation toward zero.\<close>
  "py_int x = (if 0 \<le> x then \<lfloor>x\<rfloor> else \<lceil>x\<rceil>)"

definition np_linspace :: "real \<Rightarrow> real \<Rightarrow> int \<Rightarrow> error + real list" where
  \<comment> \<open>\<open>np.linspace(start, stop, num)\<close> with the end point included; a negative
      \<open>num\<close> raises ValueError, \<open>num = 1\<close> gives \<open>[start]\<close>.\<close>
  "np_linspace start stop num =
     (if num < 0 then Inl ValueError
      else if num = 1 then Inr [start]
      else Inr (map (\<lambda>i. start + real i * ((stop - start) / real_of_int (num - 1)))
                    [0..<nat num]))"

definition slice_index :: "nat \<Rightarrow> int option \<Rightarrow> nat \<Rightarrow> nat" where
  \<comment> \<open>One bound of a Python slice on a sequence of length \<open>n\<close>: a negative bound counts
      from the end, every bound is clamped to \<open>[0, n]\<close>, an omitted bound is \<open>d\<close>.\<close>
  "slice_index n b d =
     (case b of
        None \<Rightarrow> d
      | Some i \<Rightarrow> (if i < 0 then nat (max 0 (int n + i)) else min n (nat i)))"

definition np_setslice ::
  "real list \<Rightarrow> int option \<Rightarrow> int option \<Rightarrow> real list \<Rightarrow> error + real list" where
  \<comment> \<open>\<open>arr[start:stop] = src\<close> on a one-dimensional array: the source must have the
      length of the slice, or length one (broadcast); otherwise ValueError.\<close>
  "np_setslice arr start stop src =
     (let n = length arr;
          lo = slice_index n start 0;
          hi = slice_index n stop n;
          m = hi - lo
      in if length src = m then Inr (take lo arr @ src @ drop (lo + m) arr)
         else if length src = 1 then Inr (take lo arr @ replicate m (hd src) @ drop (lo + m) arr)
         else Inl ValueError)"

definition py_enumerate :: "'a list \<Rightarrow> nat \<Rightarrow> (nat \<times> 'a) list" where
  "py_enumerate xs start = zip [start..<start + length xs] xs"

section \<open>Tone synthesis: \<open>PentatonicTrainer.generate_note\<close>\<close>

definition SAMPLE_RATE :: nat where
  "SAMPLE_RATE = 44100"

definition CHUNK_SIZE :: nat where
  "CHUNK_SIZE = 1024"

definition harmonics :: "real list" where
  "harmonics = [1.0, 0.5, 0.3, 0.2]"

definition add_harmonic :: "real \<Rightarrow> real list \<Rightarrow> real list \<Rightarrow> nat \<times> real \<Rightarrow> real list" where
  \<comment> \<open>One pass of the loop body \<open>note += amplitude * np.sin(2 * np.pi * frequency * i * t)\<close>.\<close>
  "add_harmonic frequency t note ia =
     map2 (+) note (map (\<lambda>x. snd ia * sin (2 * pi * frequency * real (fst ia) * x)) t)"

definition waveform :: "real \<Rightarrow> real list \<Rightarrow> real list" where
  \<comment> \<open>The fundamental plus the harmonics \<open>harmonics[1:]\<close>, numbered from 2.\<close>
  "waveform frequency t =
     foldl (add_harmonic frequency t)
           (map (\<lambda>x. sin (2 * pi * frequency * x)) t)
           (py_enumerate (tl harmonics) 2)"

definition note_envelope :: "nat \<Rightarrow> error + real list" where
  \<comment> \<open>The envelope of \<open>generate_note\<close> for a time axis of \<open>n\<close> samples: ones, then the
      three slice assignments of the source, in the source's order.\<close>
  "note_envelope n =
     (let attack = 0.02; decay = 0.1; sustain_level = 0.7; release = 0.3;
          envelope = replicate n (1::real);
          attack_samples = py_int (attack * real SAMPLE_RATE);
          decay_samples = py_int (decay * real SAMPLE_RATE);
          release_samples = py_int (release * real SAMPLE_RATE)
      in bind_err (np_linspace 0 1 attack_samples) (\<lambda>a.
         bind_err (np_setslice envelope None (Some attack_samples) a) (\<lambda>envelope.
         bind_err (np_linspace 1 sustain_level decay_samples) (\<lambda>d.
         bind_err (np_setslice envelope (Some attack_samples)
                     (Some (attack_samples + decay_samples)) d) (\<lambda>envelope.
         bind_err (np_linspace sustain_level 0 release_samples) (\<lambda>r.
         np_setslice envelope (Some (- release_samples)) None r))))))"

definition generate_note :: "real \<Rightarrow> real \<Rightarrow> error + real list" where
  "generate_note frequency duration =
     bind_err (np_linspace 0 duration (py_int (real SAMPLE_RATE * duration))) (\<lambda>t.
       let note = waveform frequency t
       in bind_err (note_envelope (length t)) (\<lambda>envelope.
            Inr (map (\<lambda>x. x * 0.3) (map2 (*) note envelope))))"

text \<open>
  The three ramps that \<open>generate_note\<close> writes into the envelope, as \<open>np.linspace\<close>
  lays them out for 882, 4410 and 13230 samples.
\<close>

definition attack_ramp :: "real list" where
  "attack_ramp = map (\<lambda>i. 0 + real i * ((1 - 0) / real_of_int (882 - 1))) [0..<nat 882]"
definition decay_ramp :: "real list" where
  "decay_ramp = map (\<lambda>i. 1 + real i * ((0.7 - 1) / real_of_int (4410 - 1))) [0..<nat 4410]"
definition release_ramp :: "real list" where
  "release_ramp = map (\<lambda>i. 0.7 + real i * ((0 - 0.7) / real_of_int (13230 - 1))) [0..<nat 13230]"

section \<open>Metronome track: \<open>PentatonicTrainer.generate_metronome\<close>\<close>

definition py_truediv :: "real \<Rightarrow> int \<Rightarrow> error + real" where
  \<comment> \<open>\<open>x / n\<close> for a float \<open>x\<close> and a Python int \<open>n\<close>.\<close>
  "py_truediv x n = (if n = 0 then Inl ZeroDivisionError else Inr (x / real_of_int n))"

definition np_zeros :: "int \<Rightarrow> error + real list" where
  "np_zeros n = (if n < 0 then Inl ValueError else Inr (replicate (nat n) 0))"

definition np_pad_right :: "real list \<Rightarrow> int \<Rightarrow> error + real list" where
  \<comment> \<open>\<open>np.pad(xs, (0, k))\<close>: \<open>k\<close> zeros after the data; a negative width raises.\<close>
  "np_pad_right xs k = (if k < 0 then Inl ValueError else Inr (xs @ replicate (nat k) 0))"

definition np_addslice ::
  "real list \<Rightarrow> int option \<Rightarrow> int option \<Rightarrow> real list \<Rightarrow> error + real list" where
  \<comment> \<open>\<open>arr[start:stop] += src\<close>: the source must have the length of the slice, or
      length one (broadcast); otherwise ValueError.\<close>
  "np_addslice arr start stop src =
     (let n = length arr;
          lo = slice_index n start 0;
          hi = slice_index n stop n;
          m = hi - lo
      in if length src = m
         then Inr (take lo arr @ map2 (+) (take m (drop lo arr)) src @ drop (lo + m) arr)
         else if length src = 1
         then Inr (take lo arr @ map (\<lambda>x. x + hd src) (take m (drop lo arr)) @ drop (lo + m) arr)
         else Inl ValueError)"

definition metronome_step :: "int \<Rightarrow> real list \<Rightarrow> error + real list \<Rightarrow> nat \<Rightarrow> error + real list" where
  \<comment> \<open>The body of the loop \<open>for i in range(num_beats)\<close>; an exception of an earlier
      pass ends the loop.\<close>
  "metronome_step samples_per_beat click acc i =
     bind_err acc (\<lambda>metronome.
       let start = int i * samples_per_beat;
           stop = start + int (length click)
       in np_addslice metronome (Some start) (Some stop) click)"

definition generate_metronome :: "int \<Rightarrow> int \<Rightarrow> error + real list" where
  "generate_metronome bpm num_beats =
     bind_err (py_truediv 60 bpm) (\<lambda>q.
       let samples_per_beat = py_int (q * real SAMPLE_RATE);
           total_samples = num_beats * samples_per_beat
       in bind_err (np_linspace 0 0.05 (py_int (0.05 * real SAMPLE_RATE))) (\<lambda>t.
            let click = map (\<lambda>x. sin (2 * pi * 1000 * x) * exp (- 10 * x)) t
            in bind_err (np_pad_right click (samples_per_beat - int (length click))) (\<lambda>click.
                 bind_err (np_zeros total_samples) (\<lambda>metronome.
                   foldl (metronome_step samples_per_beat click) (Inr metronome)
                     [0..<nat num_beats]))))"

text \<open>The click of \<open>generate_metronome\<close> before padding: 2205 samples over 50 ms.\<close>

definition metronome_click :: "real list" where
  "metronome_click =
     map (\<lambda>x. sin (2 * pi * 1000 * x) * exp (- 10 * x))
       (map (\<lambda>i. 0 + real i * ((0.05 - 0) / real_of_int (2205 - 1))) [0..<nat 2205])"

section \<open>Naming a frequency: \<open>PentatonicTrainer.find_closest_note\<close>\<close>

definition py_round :: "real \<Rightarrow> int" where
  \<comment> \<open>\<open>round(x)\<close> with one argument: to the nearest integer, a tie to the even one.\<close>
  "py_round x =
     (let f = \<lfloor>x\<rfloor>; r = x - real_of_int f
      in if r < 1 / 2 then f
         else if 1 / 2 < r then f + 1
         else if even f then f else f + 1)"

fun digits_of_nat :: "nat \<Rightarrow> string" where
  "digits_of_nat n =
     (if n < 10 then [''0123456789'' ! n]
      else digits_of_nat (n div 10) @ [''0123456789'' ! (n mod 10)])"

definition py_str_int :: "int \<Rightarrow> string" where
  \<comment> \<open>\<open>str(i)\<close>, also the text of \<open>{i}\<close> in an f-string.\<close>
  "py_str_int i = (if i < 0 then ''-'' @ digits_of_nat (nat (- i)) else digits_of_nat (nat i))"

definition semitones_from_a4 :: "real \<Rightarrow> error + int" where
  \<comment> \<open>\<open>round(12 * np.log2(frequency / 440.0))\<close>. For a frequency of zero the logarithm
      is minus infinity and \<open>round\<close> raises OverflowError; for a negative one it is nan
      and \<open>round\<close> raises ValueError.\<close>
  "semitones_from_a4 frequency =
     (if frequency / 440 = 0 then Inl OverflowError
      else if frequency / 440 < 0 then Inl ValueError
      else Inr (py_round (12 * log 2 (frequency / 440))))"

definition find_closest_note :: "real \<Rightarrow> error + string" where
  "find_closest_note frequency =
     bind_err (semitones_from_a4 frequency) (\<lambda>semitones.
       let notes = [''A'', ''A#'', ''B'', ''C'', ''C#'', ''D'', ''D#'', ''E'', ''F'', ''F#'', ''G'', ''G#''];
           octave = 4 + (semitones + 9) div 12;
           note_idx = (semitones + 9) mod 12
       in Inr (notes ! nat note_idx @ py_str_int octave))"

section \<open>Notes and scale positions\<close>

text \<open>
  The fields of the two data classes carry a prefix (\<open>note_fret\<close> for \<open>Note.fret\<close>,
  \<open>scale_name\<close> for \<open>ScalePosition.name\<close>): the plain names are the parameter names of
  the methods that follow, and a record field is a constant of the whole theory.
\<close>

record Note =
  note_fret :: int
  note_string :: int
  note_frequency :: real
  note_name :: string

record ScalePosition =
  scale_name :: string
  scale_notes :: "Note list"
  description :: string
  tab :: string

definition string_frequencies :: "(int \<times> real) list" where
  "string_frequencies =
     [(6, 82.41), (5, 110.00), (4, 146.83), (3, 196.00), (2, 246.94), (1, 329.63)]"

definition note_names :: "(int \<times> string list) list" where
  "note_names =
     [(6, [''E'', ''F'', ''F#'', ''G'', ''G#'', ''A'', ''A#'', ''B'', ''C'', ''C#'', ''D'', ''D#'']),
      (5, [''A'', ''A#'', ''B'', ''C'', ''C#'', ''D'', ''D#'', ''E'', ''F'', ''F#'', ''G'', ''G#'']),
      (4, [''D'', ''D#'', ''E'', ''F'', ''F#'', ''G'', ''G#'', ''A'', ''A#'', ''B'', ''C'', ''C#'']),
      (3, [''G'', ''G#'', ''A'', ''A#'', ''B'', ''C'', ''C#'', ''D'', ''D#'', ''E'', ''F'', ''F#'']),
      (2, [''B'', ''C'', ''C#'', ''D'', ''D#'', ''E'', ''F'', ''F#'', ''G'', ''G#'', ''A'', ''A#'']),
      (1, [''E'', ''F'', ''F#'', ''G'', ''G#'', ''A'', ''A#'', ''B'', ''C'', ''C#'', ''D'', ''D#''])]"

definition py_dict_item :: "('k \<times> 'v) list \<Rightarrow> 'k \<Rightarrow> error + 'v" where
  \<comment> \<open>\<open>d[k]\<close>: KeyError for a missing key.\<close>
  "py_dict_item d k = (case map_of d k of None \<Rightarrow> Inl KeyError | Some v \<Rightarrow> Inr v)"

definition py_list_item :: "'a list \<Rightarrow> int \<Rightarrow> error + 'a" where
  \<comment> \<open>\<open>xs[i]\<close>: a negative index counts from the end; IndexError out of range.\<close>
  "py_list_item xs i =
     (let n = int (length xs); j = (if i < 0 then n + i else i)
      in if 0 \<le> j \<and> j < n then Inr (xs ! nat j) else Inl IndexError)"

definition calculate_note_frequency :: "int \<Rightarrow> int \<Rightarrow> error + real" where
  "calculate_note_frequency string fret =
     bind_err (py_dict_item string_frequencies string) (\<lambda>base_freq.
       Inr (base_freq * (2 powr (real_of_int fret / 12))))"

definition get_note_name :: "int \<Rightarrow> int \<Rightarrow> error + string" where
  "get_note_name string fret =
     bind_err (py_dict_item note_names string) (\<lambda>names. py_list_item names (fret mod 12))"

definition make_note :: "int \<times> int \<Rightarrow> error + Note" where
  \<comment> \<open>\<open>Note(fret, string, self.calculate_note_frequency(string, fret),
      self.get_note_name(string, fret))\<close>, as every entry of the five tables is written.\<close>
  "make_note fs =
     bind_err (calculate_note_frequency (snd fs) (fst fs)) (\<lambda>f.
     bind_err (get_note_name (snd fs) (fst fs)) (\<lambda>n.
       Inr \<lparr>note_fret = fst fs, note_string = snd fs, note_frequency = f, note_name = n\<rparr>))"

fun collect_results :: "(error + 'a) list \<Rightarrow> error + 'a list" where
  "collect_results [] = Inr []"
| "collect_results (r # rs) =
     bind_err r (\<lambda>x. bind_err (collect_results rs) (\<lambda>xs. Inr (x # xs)))"

definition tab_lines :: "string list \<Rightarrow> string" where
  \<comment> \<open>A triple-quoted tab: every line preceded by a line feed.\<close>
  "tab_lines ls = concat (map (\<lambda>l. CHR 0x0A # l) ls)"

definition create_scale_position1 :: "error + ScalePosition" where
  "create_scale_position1 =
     bind_err (collect_results (map make_note
        [(5, 6), (8, 6), (5, 5), (7, 5), (5, 4), (7, 4),
         (5, 3), (7, 3), (5, 2), (8, 2), (5, 1), (8, 1)])) (\<lambda>notes.
       Inr \<lparr>scale_name = ''Position 1 - A Minor Pentatonic'',
            scale_notes = notes,
            description = ''The foundation position starting on the root note A'',
            tab = tab_lines
              [''e|---5--8-------------------------'',
               ''b|---5--8-------------------------'',
               ''G|---5--7-------------------------'',
               ''D|---5--7-------------------------'',
               ''A|---5--7-------------------------'',
               ''E|---5--8-------------------------'']\<rparr>)"

definition create_scale_position2 :: "error + ScalePosition" where
  "create_scale_position2 =
     bind_err (collect_results (map make_note
        [(8, 6), (10, 6), (7, 5), (10, 5), (7, 4), (10, 4),
         (7, 3), (9, 3), (8, 2), (10, 2), (8, 1), (10, 1)])) (\<lambda>notes.
       Inr \<lparr>scale_name = ''Position 2 - A Minor Pentatonic'',
            scale_notes = notes,
            description = ''The second position, starting on C'',
            tab = tab_lines
              [''e|---8--10------------------------'',
               ''b|---8--10------------------------'',
               ''G|---7--9-------------------------'',
               ''D|---7--10------------------------'',
               ''A|---7--10------------------------'',
               ''E|---8--10------------------------'']\<rparr>)"

definition create_scale_position3 :: "error + ScalePosition" where
  "create_scale_position3 =
     bind_err (collect_results (map make_note
        [(10, 6), (12, 6), (10, 5), (12, 5), (10, 4), (12, 4),
         (9, 3), (12, 3), (10, 2), (12, 2), (10, 1), (12, 1)])) (\<lambda>notes.
       Inr \<lparr>scale_name = ''Position 3 - A Minor Pentatonic'',
            scale_notes = notes,
            description = ''The third position, starting on D'',
            tab = tab_lines
              [''e|---10-12------------------------'',
               ''b|---10-12------------------------'',
               ''G|---9--12------------------------'',
               ''D|---10-12------------------------'',
               ''A|---10-12------------------------'',
               ''E|---10-12------------------------'']\<rparr>)"

definition create_scale_position4 :: "error + ScalePosition" where
  "create_scale_position4 =
     bind_err (collect_results (map make_note
        [(12, 6), (15, 6), (12, 5), (15, 5), (12, 4), (14, 4),
         (12, 3), (14, 3), (12, 2), (15, 2), (12, 1), (15, 1)])) (\<lambda>notes.
       Inr \<lparr>scale_name = ''Position 4 - A Minor Pentatonic'',
            scale_notes = notes,
            description = ''The fourth position, starting on E'',
            tab = tab_lines
              [''e|---12-15------------------------'',
               ''b|---12-15------------------------'',
               ''G|---12-14------------------------'',
               ''D|---12-14------------------------'',
               ''A|---12-15------------------------'',
               ''E|---12-15------------------------'']\<rparr>)"

definition create_scale_position5 :: "error + ScalePosition" where
  "create_scale_position5 =
     bind_err (collect_results (map make_note
        [(15, 6), (17, 6), (15, 5), (17, 5), (14, 4), (17, 4),
         (14, 3), (17, 3), (15, 2), (17, 2), (15, 1), (17, 1)])) (\<lambda>notes.
       Inr \<lparr>scale_name = ''Position 5 - A Minor Pentatonic'',
            scale_notes = notes,
            description = ''The fifth position, starting on G'',
            tab = tab_lines
              [''e|---15-17------------------------'',
               ''b|---15-17------------------------'',
               ''G|---14-17------------------------'',
               ''D|---14-17------------------------'',
               ''A|---15-17------------------------'',
               ''E|---15-17------------------------'']\<rparr>)"

definition create_scale_positions :: "error + (string \<times> ScalePosition) list" where
  \<comment> \<open>The dictionary \<open>self.scale_positions\<close> that \<open>__init__\<close> builds.\<close>
  "create_scale_positions =
     bind_err create_scale_position1 (\<lambda>p1.
     bind_err create_scale_position2 (\<lambda>p2.
     bind_err create_scale_position3 (\<lambda>p3.
     bind_err create_scale_position4 (\<lambda>p4.
     bind_err create_scale_position5 (\<lambda>p5.
       Inr [(''position1'', p1), (''position2'', p2), (''position3'', p3),
            (''position4'', p4), (''position5'', p5)])))))"

section \<open>Progress record and its store\<close>

record Progress =
  total_score :: int
  games_won :: "string list"
  target_bpm :: int
  level_accuracies :: "(string \<times> real list) list"
  highest_bpm :: int
  positions_unlocked :: "string list"

datatype json =
  JInt int | JFloat real | JStr string | JList "json list" | JDict "(string \<times> json) list"

text \<open>
  The file \<open>pentatonic_progress.json\<close>: absent, or holding a text that \<open>json.load\<close> reads
  as a value (\<open>Parsed\<close>) or rejects (\<open>Malformed\<close>).
\<close>

datatype file_content = Parsed json | Malformed

record Trainer =
  current_bpm :: int
  starting_bpm :: int
  default_target_bpm :: int
  progress :: Progress
  scale_positions :: "(string \<times> ScalePosition) list"
  progress_file :: "file_content option"

definition progress_to_json :: "Progress \<Rightarrow> json" where
  "progress_to_json p =
     JDict [(''total_score'', JInt (total_score p)),
            (''games_won'', JList (map JStr (games_won p))),
            (''target_bpm'', JInt (target_bpm p)),
            (''level_accuracies'',
               JDict (map (\<lambda>kv. (fst kv, JList (map JFloat (snd kv)))) (level_accuracies p))),
            (''highest_bpm'', JInt (highest_bpm p)),
            (''positions_unlocked'', JList (map JStr (positions_unlocked p)))]"

definition save_progress :: "Trainer \<Rightarrow> Trainer" where
  "save_progress st = st\<lparr>progress_file := Some (Parsed (progress_to_json (progress st)))\<rparr>"

text \<open>
  Values that a name can be bound to where \<open>load_progress\<close> runs, and the names that are
  bound there: the parameter \<open>self\<close>, the target \<open>f\<close> of the \<open>with\<close> statement, and the
  globals of the module. (No builtin is called \<open>saved_progress\<close>.)
\<close>

datatype pyval = PyObject | PyFile file_content | PyModule | PyJson json

definition load_progress_scope :: "file_content \<Rightarrow> (string \<times> pyval) list" where
  "load_progress_scope content =
     [(''self'', PyObject), (''f'', PyFile content),
      (''pygame'', PyModule), (''sd'', PyModule), (''np'', PyModule), (''json'', PyModule),
      (''time'', PyModule), (''os'', PyModule), (''dataclass'', PyObject), (''List'', PyObject),
      (''Dict'', PyObject), (''Optional'', PyObject), (''scipy'', PyModule),
      (''Note'', PyObject), (''ScalePosition'', PyObject), (''PentatonicTrainer'', PyObject)]"

definition py_name :: "(string \<times> pyval) list \<Rightarrow> string \<Rightarrow> error + pyval" where
  \<comment> \<open>Evaluating a name: NameError when nothing is bound to it.\<close>
  "py_name scope n = (case map_of scope n of None \<Rightarrow> Inl (NameError n) | Some v \<Rightarrow> Inr v)"

definition py_get :: "pyval \<Rightarrow> string \<Rightarrow> json \<Rightarrow> error + json" where
  \<comment> \<open>\<open>v.get(key, default)\<close>: only a dictionary has the method.\<close>
  "py_get v k d =
     (case v of
        PyJson (JDict kvs) \<Rightarrow> Inr (case map_of kvs k of None \<Rightarrow> d | Some x \<Rightarrow> x)
      | _ \<Rightarrow> Inl AttributeError)"

text \<open>
  The record \<open>Progress\<close> is typed; a JSON value of another type in a field is outside the
  model and is reported as TypeError.
\<close>

definition json_int :: "json \<Rightarrow> error + int" where
  "json_int v = (case v of JInt i \<Rightarrow> Inr i | _ \<Rightarrow> Inl TypeError)"

definition json_str :: "json \<Rightarrow> error + string" where
  "json_str v = (case v of JStr s \<Rightarrow> Inr s | _ \<Rightarrow> Inl TypeError)"

definition json_real :: "json \<Rightarrow> error + real" where
  "json_real v = (case v of JFloat x \<Rightarrow> Inr x | JInt i \<Rightarrow> Inr (real_of_int i) | _ \<Rightarrow> Inl TypeError)"

definition json_str_list :: "json \<Rightarrow> error + string list" where
  "json_str_list v = (case v of JList xs \<Rightarrow> collect_results (map json_str xs) | _ \<Rightarrow> Inl TypeError)"

definition json_real_list :: "json \<Rightarrow> error + real list" where
  "json_real_list v = (case v of JList xs \<Rightarrow> collect_results (map json_real xs) | _ \<Rightarrow> Inl TypeError)"

definition json_accuracies :: "json \<Rightarrow> error + (string \<times> real list) list" where
  "json_accuracies v =
     (case v of
        JDict kvs \<Rightarrow>
          collect_results
            (map (\<lambda>kv. bind_err (json_real_list (snd kv)) (\<lambda>xs. Inr (fst kv, xs))) kvs)
      | _ \<Rightarrow> Inl TypeError)"

definition saved_progress_get :: "(string \<times> pyval) list \<Rightarrow> string \<Rightarrow> json \<Rightarrow> error + json" where
  \<comment> \<open>The expression \<open>saved_progress.get(key, default)\<close>.\<close>
  "saved_progress_get scope k d = bind_err (py_name scope ''saved_progress'') (\<lambda>v. py_get v k d)"

definition load_progress_try :: "Trainer \<Rightarrow> file_content \<Rightarrow> error + Trainer" where
  \<comment> \<open>The body of the \<open>try\<close> statement of \<open>load_progress\<close>: the file is opened and the
      dictionary display is evaluated entry by entry, then assigned.\<close>
  "load_progress_try st content =
     (let scope = load_progress_scope content
      in bind_err (saved_progress_get scope ''total_score'' (JInt 0)) (\<lambda>v1.
         bind_err (saved_progress_get scope ''games_won'' (JList [])) (\<lambda>v2.
         bind_err (saved_progress_get scope ''target_bpm'' (JInt (default_target_bpm st))) (\<lambda>v3.
         bind_err (saved_progress_get scope ''level_accuracies'' (JDict [])) (\<lambda>v4.
         bind_err (saved_progress_get scope ''highest_bpm'' (JInt (starting_bpm st))) (\<lambda>v5.
         bind_err (saved_progress_get scope ''positions_unlocked''
                     (JList [JStr ''position1''])) (\<lambda>v6.
         bind_err (json_int v1) (\<lambda>ts.
         bind_err (json_str_list v2) (\<lambda>gw.
         bind_err (json_int v3) (\<lambda>tb.
         bind_err (json_accuracies v4) (\<lambda>la.
         bind_err (json_int v5) (\<lambda>hb.
         bind_err (json_str_list v6) (\<lambda>pu.
           Inr (st\<lparr>progress := \<lparr>total_score = ts, games_won = gw, target_bpm = tb,
                                 level_accuracies = la, highest_bpm = hb,
                                 positions_unlocked = pu\<rparr>,
                    current_bpm := hb\<rparr>))))))))))))))"

definition load_progress :: "Trainer \<Rightarrow> Trainer" where
  \<comment> \<open>\<open>os.path.exists\<close> guards the \<open>try\<close>; the bare \<open>except\<close> prints a message and leaves
      the trainer as it is.\<close>
  "load_progress st =
     (case progress_file st of
        None \<Rightarrow> st
      | Some content \<Rightarrow>
          (case load_progress_try st content of Inl e \<Rightarrow> st | Inr st' \<Rightarrow> st'))"

text \<open>The trainer that \<open>__init__\<close> sets up before it calls \<open>load_progress\<close>.\<close>

definition fresh_trainer :: "(string \<times> ScalePosition) list \<Rightarrow> file_content option \<Rightarrow> Trainer" where
  "fresh_trainer positions file =
     \<lparr>current_bpm = 120, starting_bpm = 120, default_target_bpm = 240,
      progress = \<lparr>total_score = 0, games_won = [], target_bpm = 240,
                  level_accuracies = [], highest_bpm = 120,
                  positions_unlocked = [''position1'']\<rparr>,
      scale_positions = positions,
      progress_file = file\<rparr>"

definition trainer_init :: "file_content option \<Rightarrow> error + Trainer" where
  \<comment> \<open>\<open>PentatonicTrainer.__init__\<close>, started with the given file in place.\<close>
  "trainer_init file =
     bind_err create_scale_positions (\<lambda>positions.
       Inr (load_progress (fresh_trainer positions file)))"

section \<open>Strings: \<open>str.split\<close> and \<open>int\<close>\<close>

definition py_isspace :: "char \<Rightarrow> bool" where
  "py_isspace c = (c \<in> set [CHR '' '', CHR 0x09, CHR 0x0A, CHR 0x0B, CHR 0x0C, CHR 0x0D])"

fun split_words :: "string \<Rightarrow> string \<Rightarrow> string list" where
  \<comment> \<open>The word being read, then the text still to read.\<close>
  "split_words cur [] = (if cur = [] then [] else [cur])"
| "split_words cur (c # cs) =
     (if py_isspace c
      then (if cur = [] then split_words [] cs else cur # split_words [] cs)
      else split_words (cur @ [c]) cs)"

definition py_split :: "string \<Rightarrow> string list" where
  \<comment> \<open>\<open>s.split()\<close>: the words between runs of white space.\<close>
  "py_split s = split_words [] s"

definition py_isdigit :: "char \<Rightarrow> bool" where
  "py_isdigit c = (c \<in> set ''0123456789'')"

definition digit_value :: "char \<Rightarrow> nat" where
  "digit_value c = of_char c - 48"

definition py_int_of_str :: "string \<Rightarrow> error + int" where
  \<comment> \<open>\<open>int(s)\<close> on a string: white space around it is dropped, one sign is read, then
      every character must be a decimal digit; otherwise ValueError. (Underscores between
      digits and digits outside ASCII are not modelled.)\<close>
  "py_int_of_str s =
     (let t = rev (dropWhile py_isspace (rev (dropWhile py_isspace s)));
          neg = (t \<noteq> [] \<and> hd t = CHR ''-'');
          body = (if t \<noteq> [] \<and> (hd t = CHR ''-'' \<or> hd t = CHR ''+'') then tl t else t);
          n = int (foldl (\<lambda>a c. 10 * a + digit_value c) 0 body)
      in if body \<noteq> [] \<and> list_all py_isdigit body
         then Inr (if neg then - n else n)
         else Inl ValueError)"

section \<open>Progression after a practice pass\<close>

definition append_accuracy ::
  "string \<Rightarrow> real \<Rightarrow> (string \<times> real list) list \<Rightarrow> (string \<times> real list) list" where
  \<comment> \<open>\<open>if key not in d: d[key] = []\<close>, then \<open>d[key].append(accuracy)\<close>.\<close>
  "append_accuracy key accuracy d =
     (case map_of d key of
        None \<Rightarrow> d @ [(key, [accuracy])]
      | Some _ \<Rightarrow> map (\<lambda>kv. if fst kv = key then (fst kv, snd kv @ [accuracy]) else kv) d)"

definition store_accuracy :: "string \<Rightarrow> real \<Rightarrow> Trainer \<Rightarrow> Trainer" where
  "store_accuracy level_key accuracy st =
     st\<lparr>progress := (progress st)
          \<lparr>level_accuracies := append_accuracy level_key accuracy (level_accuracies (progress st))\<rparr>\<rparr>"

definition record_win :: "string \<Rightarrow> Trainer \<Rightarrow> Trainer" where
  \<comment> \<open>\<open>self.progress["games_won"].append(...)\<close>.\<close>
  "record_win entry st =
     st\<lparr>progress := (progress st)\<lparr>games_won := games_won (progress st) @ [entry]\<rparr>\<rparr>"

definition unlock_next :: "int \<Rightarrow> Trainer \<Rightarrow> Trainer \<times> error option" where
  \<comment> \<open>The unlock step that both front ends share: the next position is appended when
      the current one is below 5 and the next is not yet unlocked; the congratulation
      then reads the name of the next position from \<open>scale_positions\<close>.\<close>
  "unlock_next current_pos st =
     (let next_pos = ''position'' @ py_str_int (current_pos + 1)
      in if current_pos < 5 \<and> next_pos \<notin> set (positions_unlocked (progress st))
         then (let st' = st\<lparr>progress := (progress st)
                     \<lparr>positions_unlocked := positions_unlocked (progress st) @ [next_pos]\<rparr>\<rparr>
               in case map_of (scale_positions st') next_pos of
                    None \<Rightarrow> (st', Some KeyError)
                  | Some _ \<Rightarrow> (st', None))
         else (st, None))"

definition play_game_progress :: "string \<Rightarrow> nat \<Rightarrow> nat \<Rightarrow> Trainer \<Rightarrow> Trainer \<times> error option" where
  \<comment> \<open>\<open>play_game\<close> of the command-line front end, from the accuracy to \<open>save_progress\<close>.
      The result is the trainer as the method leaves it, and the exception if one is
      raised.\<close>
  "play_game_progress position correct_notes expected_note_count st =
     (case map_of (scale_positions st) position of
        None \<Rightarrow> (st, Some KeyError)
      | Some scale \<Rightarrow>
          (let accuracy = (if expected_note_count > 0
                           then (real correct_notes / real expected_note_count) * 100 else 0);
               level_key = scale_name scale @ ''_'' @ py_str_int (current_bpm st);
               st1 = store_accuracy level_key accuracy st
           in if accuracy = 100
              then (let st2 = record_win (scale_name scale @ '' at ''
                                @ py_str_int (current_bpm st1) @ '' BPM'') st1;
                        st3 = st2\<lparr>current_bpm :=
                                 min (current_bpm st2 + 10) (target_bpm (progress st2))\<rparr>;
                        st4 = st3\<lparr>progress := (progress st3)
                                 \<lparr>highest_bpm := max (highest_bpm (progress st3)) (current_bpm st3)\<rparr>\<rparr>
                    in case bind_err (py_list_item position (- 1)) (\<lambda>c. py_int_of_str [c]) of
                         Inl e \<Rightarrow> (st4, Some e)
                       | Inr current_pos \<Rightarrow>
                           (case unlock_next current_pos st4 of
                              (st5, Some e) \<Rightarrow> (st5, Some e)
                            | (st5, None) \<Rightarrow> (save_progress st5, None)))
              else (save_progress st1, None)))"

definition analyze_progress ::
  "ScalePosition \<Rightarrow> int \<Rightarrow> nat \<Rightarrow> nat \<Rightarrow> Trainer \<Rightarrow> Trainer \<times> error option" where
  \<comment> \<open>\<open>analyze_recording\<close> of the graphical front end, from the accuracy to
      \<open>save_progress\<close>; \<open>bpm\<close> is the tempo of the pass, read from the tempo spinner.\<close>
  "analyze_progress current_position bpm correct_notes expected_note_count st =
     (if expected_note_count > 0
      then (let accuracy = (real correct_notes / real expected_note_count) * 100;
                level_key = scale_name current_position @ ''_'' @ py_str_int bpm;
                st1 = store_accuracy level_key accuracy st
            in if accuracy = 100
               then (let st2 = record_win (scale_name current_position @ '' at ''
                                 @ py_str_int bpm @ '' BPM'') st1
                     in case bind_err (py_list_item (py_split (scale_name current_position)) (- 1))
                               py_int_of_str of
                          Inl e \<Rightarrow> (st2, Some e)
                        | Inr current_pos \<Rightarrow>
                            (case unlock_next current_pos st2 of
                               (st3, Some e) \<Rightarrow> (st3, Some e)
                             | (st3, None) \<Rightarrow>
                                 (let st4 = (if bpm < target_bpm (progress st3)
                                             then st3\<lparr>current_bpm :=
                                                    min (bpm + 5) (target_bpm (progress st3))\<rparr>
                                             else st3)
                                  in (save_progress st4, None))))
               else (save_progress st1, None))
      else (st, None))"

section \<open>Floating-point values with infinities and nan\<close>

text \<open>
  Where the program divides by a peak amplitude that can be zero, a sample is a number,
  an infinity or nan, as numpy computes it (with a warning and no exception). Numbers
  are exact reals.
\<close>

datatype npfloat = Num real | PosInf | NegInf | NaN

fun np_div :: "real \<Rightarrow> real \<Rightarrow> npfloat" where
  \<comment> \<open>The quotient of two numbers.\<close>
  "np_div x y =
     (if y \<noteq> 0 then Num (x / y)
      else if x = 0 then NaN
      else if 0 < x then PosInf else NegInf)"

fun np_sign :: "npfloat \<Rightarrow> int" where
  "np_sign (Num x) = (if x = 0 then 0 else if 0 < x then 1 else - 1)"
| "np_sign PosInf = 1"
| "np_sign NegInf = - 1"
| "np_sign NaN = 0"

fun np_mul :: "npfloat \<Rightarrow> npfloat \<Rightarrow> npfloat" where
  "np_mul (Num x) (Num y) = Num (x * y)"
| "np_mul NaN b = NaN"
| "np_mul a NaN = NaN"
| "np_mul a b =
     (if np_sign a * np_sign b = 0 then NaN
      else if 0 < np_sign a * np_sign b then PosInf else NegInf)"

fun np_add :: "npfloat \<Rightarrow> npfloat \<Rightarrow> npfloat" where
  "np_add (Num x) (Num y) = Num (x + y)"
| "np_add NaN b = NaN"
| "np_add a NaN = NaN"
| "np_add PosInf NegInf = NaN"
| "np_add NegInf PosInf = NaN"
| "np_add PosInf b = PosInf"
| "np_add a PosInf = PosInf"
| "np_add NegInf b = NegInf"
| "np_add a NegInf = NegInf"

fun np_less :: "npfloat \<Rightarrow> npfloat \<Rightarrow> bool" where
  \<comment> \<open>\<open>a < b\<close>: false when either side is nan.\<close>
  "np_less (Num x) (Num y) = (x < y)"
| "np_less NaN b = False"
| "np_less a NaN = False"
| "np_less PosInf b = False"
| "np_less a PosInf = True"
| "np_less a NegInf = False"
| "np_less NegInf b = True"

fun np_eq :: "npfloat \<Rightarrow> npfloat \<Rightarrow> bool" where
  \<comment> \<open>\<open>a == b\<close>: false when either side is nan.\<close>
  "np_eq (Num x) (Num y) = (x = y)"
| "np_eq PosInf PosInf = True"
| "np_eq NegInf NegInf = True"
| "np_eq a b = False"

definition np_le :: "npfloat \<Rightarrow> npfloat \<Rightarrow> bool" where
  "np_le a b = (np_less a b \<or> np_eq a b)"

definition np_sum :: "npfloat list \<Rightarrow> npfloat" where
  "np_sum xs = foldl np_add (Num 0) xs"

section \<open>Pitch detection: \<open>PentatonicTrainer.detect_fundamental_frequency\<close>\<close>

definition np_max :: "real list \<Rightarrow> error + real" where
  \<comment> \<open>\<open>np.max\<close>: ValueError on an empty array.\<close>
  "np_max xs = (if xs = [] then Inl ValueError else Inr (foldl max (hd xs) (tl xs)))"

definition np_hanning :: "nat \<Rightarrow> real list" where
  \<comment> \<open>\<open>np.hanning(M)\<close>: \<open>0.5 + 0.5 cos(pi n / (M - 1))\<close> for \<open>n = 1 - M, 3 - M, ..., M - 1\<close>.\<close>
  "np_hanning M =
     (if M < 1 then []
      else if M = 1 then [1]
      else map (\<lambda>i. 0.5 + 0.5 * cos (pi * (1 - real M + 2 * real i) / (real M - 1))) [0..<M])"

definition np_correlate_full :: "npfloat list \<Rightarrow> npfloat list \<Rightarrow> error + npfloat list" where
  \<comment> \<open>\<open>np.correlate(a, v, mode='full')\<close>: entry \<open>j\<close> is the sum of \<open>a[n + k] * v[n]\<close> over
      the \<open>n\<close> for which both indices exist, with the lag \<open>k = j - (len(v) - 1)\<close>.\<close>
  "np_correlate_full a v =
     (if a = [] \<or> v = [] then Inl ValueError
      else Inr (map (\<lambda>j. np_sum (map (\<lambda>n. np_mul (a ! (n + j - (length v - 1))) (v ! n))
                                    (filter (\<lambda>n. length v - 1 \<le> n + j
                                                  \<and> n + j - (length v - 1) < length a)
                                       [0..<length v])))
                    [0..<length a + length v - 1]))"

function skip_plateau :: "npfloat list \<Rightarrow> nat \<Rightarrow> nat \<Rightarrow> nat" where
  \<comment> \<open>The inner loop of scipy's \<open>_local_maxima_1d\<close>: the next sample unequal to
      \<open>x[i]\<close>, at most the last one.\<close>
  "skip_plateau x i i_ahead =
     (if i_ahead < length x - 1 \<and> np_eq (x ! i_ahead) (x ! i)
      then skip_plateau x i (i_ahead + 1)
      else i_ahead)"
  by pat_completeness auto
termination
  by (relation "measure (\<lambda>(x, i, i_ahead). length x - 1 - i_ahead)") auto

declare skip_plateau.simps [simp del]

function local_maxima_from :: "npfloat list \<Rightarrow> nat \<Rightarrow> nat list" where
  \<comment> \<open>The outer loop of \<open>_local_maxima_1d\<close> from the sample \<open>i\<close> on: a sample above its
      left neighbour starts a plateau; the plateau is a maximum when the sample after it is
      lower, and its midpoint is recorded. The first and the last sample are never maxima.\<close>
  "local_maxima_from x i =
     (if i < length x - 1
      then (if np_less (x ! (i - 1)) (x ! i)
            then (if np_less (x ! skip_plateau x i (i + 1)) (x ! i)
                  then (i + (skip_plateau x i (i + 1) - 1)) div 2
                       # local_maxima_from x (skip_plateau x i (i + 1) + 1)
                  else local_maxima_from x (i + 1))
            else local_maxima_from x (i + 1))
      else [])"
  by pat_completeness auto
termination
proof (relation "measure (\<lambda>(x, i). length x - i)")
  have ahead: "i_ahead \<le> skip_plateau x i i_ahead" for x i i_ahead
  proof (induction x i i_ahead rule: skip_plateau.induct)
    case (1 x i i_ahead)
    then show ?case
      by (subst skip_plateau.simps) auto
  qed
  show "wf (measure (\<lambda>(x, i). length x - i))"
    by simp
  show "((x, skip_plateau x i (i + 1) + 1), (x, i)) \<in> measure (\<lambda>(x, i). length x - i)"
    if "i < length x - 1" for x i
    using that ahead [of "i + 1" x i] by simp
  show "((x, i + 1), (x, i)) \<in> measure (\<lambda>(x, i). length x - i)"
    if "i < length x - 1" for x i
    using that by simp
  show "((x, i + 1), (x, i)) \<in> measure (\<lambda>(x, i). length x - i)"
    if "i < length x - 1" for x i
    using that by simp
qed

declare local_maxima_from.simps [simp del]

definition find_peaks :: "npfloat list \<Rightarrow> real \<Rightarrow> nat list" where
  \<comment> \<open>\<open>scipy.signal.find_peaks(x, height=h)[0]\<close>: the local maxima whose value is at
      least \<open>h\<close>.\<close>
  "find_peaks x h = filter (\<lambda>p. np_le (Num h) (x ! p)) (local_maxima_from x 1)"

definition detect_fundamental_frequency :: "real list \<Rightarrow> error + real option" where
  "detect_fundamental_frequency audio_data =
     (if length audio_data < CHUNK_SIZE then Inr None
      else bind_err (np_max (map abs audio_data)) (\<lambda>peak.
           let normalized = map (\<lambda>x. np_div x peak) audio_data;
               window = np_hanning (length normalized);
               windowed = map2 np_mul normalized (map Num window)
           in bind_err (np_correlate_full windowed windowed) (\<lambda>correlation.
                let correlation = drop (length correlation div 2) correlation;
                    peaks = find_peaks correlation 0.1
                in if length peaks > 0
                   then Inr (Some (real SAMPLE_RATE / real (hd peaks)))
                   else Inr None)))"

text \<open>
  The autocorrelation at lag \<open>k\<close> of a list of numbers, as the entry \<open>k\<close> of the
  non-negative-lag half of \<open>np.correlate(y, y, mode='full')\<close>.
\<close>

definition autocorr :: "real list \<Rightarrow> nat \<Rightarrow> real" where
  "autocorr y k =
     sum_list (map (\<lambda>m. y ! (m + k) * y ! m) (filter (\<lambda>m. m + k < length y) [0..<length y]))"

section \<open>Scoring a recording\<close>

text \<open>
  \<open>play_game\<close> and \<open>analyze_recording\<close> hold the same two loops, one that collects the
  detected frequencies and one that compares them with the expected notes; they are
  modelled once.
\<close>

definition FREQUENCY_TOLERANCE :: real where
  "FREQUENCY_TOLERANCE = 0.5"

definition py_range_step :: "nat \<Rightarrow> int \<Rightarrow> error + nat list" where
  \<comment> \<open>\<open>range(0, n, step)\<close>: ValueError for a step of zero, empty for a negative one.\<close>
  "py_range_step n step =
     (if step = 0 then Inl ValueError
      else if step < 0 then Inr []
      else Inr (map (\<lambda>k. k * nat step) [0..<(n + nat step - 1) div nat step]))"

definition beat_chunks :: "real list \<Rightarrow> int \<Rightarrow> error + real list list" where
  \<comment> \<open>The chunks \<open>playing_audio[i:i + samples_per_beat]\<close> that the first loop visits.\<close>
  "beat_chunks playing_audio samples_per_beat =
     bind_err (py_range_step (length playing_audio) samples_per_beat) (\<lambda>starts.
       Inr (map (\<lambda>i. take (nat samples_per_beat) (drop i playing_audio)) starts))"

definition collect_note :: "error + real list \<Rightarrow> real list \<Rightarrow> error + real list" where
  \<comment> \<open>The body of the first loop: a frequency is appended to \<open>notes_detected\<close> only when
      the chunk is long enough and the detector returns one.\<close>
  "collect_note acc chunk =
     bind_err acc (\<lambda>notes_detected.
       if CHUNK_SIZE \<le> length chunk
       then bind_err (detect_fundamental_frequency chunk) (\<lambda>freq.
              case freq of
                None \<Rightarrow> Inr notes_detected
              | Some f \<Rightarrow> Inr (notes_detected @ [f]))
       else Inr notes_detected)"

definition detect_notes :: "real list \<Rightarrow> int \<Rightarrow> error + real list" where
  \<comment> \<open>From the recording to \<open>notes_detected\<close>: the count-in is skipped and the rest is
      walked one beat at a time.\<close>
  "detect_notes recording bpm =
     bind_err (py_truediv 60 bpm) (\<lambda>seconds_per_beat.
       let start_sample = py_int (4 * seconds_per_beat * real SAMPLE_RATE);
           playing_audio =
             drop (slice_index (length recording) (Some start_sample) 0) recording;
           samples_per_beat = py_int (seconds_per_beat * real SAMPLE_RATE)
       in bind_err (beat_chunks playing_audio samples_per_beat) (\<lambda>chunks.
            foldl collect_note (Inr []) chunks))"

definition within_tolerance :: "real \<Rightarrow> real \<Rightarrow> bool" where
  \<comment> \<open>\<open>abs(12 * np.log2(detected / expected)) <= FREQUENCY_TOLERANCE\<close>. A ratio that is
      not positive makes the logarithm infinite or nan, and the comparison false.\<close>
  "within_tolerance detected expected =
     (0 < detected / expected
      \<and> \<bar>12 * log 2 (detected / expected)\<bar> \<le> FREQUENCY_TOLERANCE)"

definition judge_note :: "error + nat \<Rightarrow> real \<times> Note \<Rightarrow> error + nat" where
  \<comment> \<open>The body of the second loop, on one pair of \<open>zip(notes_detected, expected_notes)\<close>:
      the count of correct notes grows, or the detected pitch is named for the message.\<close>
  "judge_note acc pair =
     bind_err acc (\<lambda>correct_notes.
       if within_tolerance (fst pair) (note_frequency (snd pair))
       then Inr (correct_notes + 1)
       else bind_err (find_closest_note (fst pair)) (\<lambda>detected_note. Inr correct_notes))"

definition count_correct :: "real list \<Rightarrow> Note list \<Rightarrow> error + nat" where
  "count_correct notes_detected expected_notes =
     foldl judge_note (Inr 0) (zip notes_detected expected_notes)"

definition expected_notes_of :: "ScalePosition \<Rightarrow> Note list" where
  \<comment> \<open>\<open>scale.notes + list(reversed(scale.notes))\<close>.\<close>
  "expected_notes_of scale = scale_notes scale @ rev (scale_notes scale)"

definition play_game_analysis :: "string \<Rightarrow> real list \<Rightarrow> Trainer \<Rightarrow> Trainer \<times> error option" where
  \<comment> \<open>\<open>play_game\<close> of the command-line front end, from the finished recording on.\<close>
  "play_game_analysis position recording st =
     (case map_of (scale_positions st) position of
        None \<Rightarrow> (st, Some KeyError)
      | Some scale \<Rightarrow>
          (case bind_err (detect_notes recording (current_bpm st)) (\<lambda>notes_detected.
                  count_correct notes_detected (expected_notes_of scale)) of
             Inl e \<Rightarrow> (st, Some e)
           | Inr correct_notes \<Rightarrow>
               play_game_progress position correct_notes
                 (length (expected_notes_of scale)) st))"

definition analyze_recording ::
  "ScalePosition \<Rightarrow> real list \<Rightarrow> int \<Rightarrow> Trainer \<Rightarrow> Trainer \<times> error option" where
  \<comment> \<open>\<open>analyze_recording\<close> of the graphical front end.\<close>
  "analyze_recording current_position recording bpm st =
     (case bind_err (detect_notes recording bpm) (\<lambda>notes_detected.
             count_correct notes_detected (expected_notes_of current_position)) of
        Inl e \<Rightarrow> (st, Some e)
      | Inr correct_notes \<Rightarrow>
          analyze_progress current_position bpm correct_notes
            (length (expected_notes_of current_position)) st)"

text \<open>
  A recording of one pass at 120 bpm over a position of twelve notes: 603 chunks of 1024
  samples. The count-in (88200 samples) and the first beat are silent; the second beat
  holds two unit impulses 401 samples apart (a period of 109.98 Hz) around its middle;
  the rest is silent.
\<close>

definition impulse_beat :: "real list" where
  "impulse_beat = replicate 10824 0 @ [1] @ replicate 400 0 @ [1] @ replicate 10824 0"

definition late_recording :: "real list" where
  "late_recording =
     replicate 88200 0 @ replicate 22050 0 @ impulse_beat @ replicate 485172 0"

text \<open>The recording after the count-in.\<close>

definition playing_part :: "real list" where
  "playing_part = replicate 22050 0 @ impulse_beat @ replicate 485172 0"

section \<open>Facts about the primitives\<close>

lemma length_np_linspace:
  assumes "np_linspace a b num = Inr xs"
  shows "length xs = nat num"
  using assms by (auto simp: np_linspace_def split: if_splits)

lemma np_linspace_ok:
  assumes "0 \<le> num"
  shows "\<exists>xs. np_linspace a b num = Inr xs \<and> length xs = nat num"
  using assms by (auto simp: np_linspace_def)

lemma attack_samples_eq: "py_int (0.02 * real SAMPLE_RATE) = 882"
  by (simp add: py_int_def SAMPLE_RATE_def)
lemma decay_samples_eq: "py_int (0.1 * real SAMPLE_RATE) = 4410"
  by (simp add: py_int_def SAMPLE_RATE_def)
lemma release_samples_eq: "py_int (0.3 * real SAMPLE_RATE) = 13230"
  by (simp add: py_int_def SAMPLE_RATE_def)

lemma np_setslice_prefix:
  assumes "length src = k" "k \<le> length arr"
  shows "np_setslice arr None (Some (int k)) src = Inr (src @ drop k arr)"
  using assms by (simp add: np_setslice_def slice_index_def Let_def)

lemma np_setslice_prefix_short:
  assumes "length src = k" "length arr < k" "k \<noteq> 1"
  shows "np_setslice arr None (Some (int k)) src = Inl ValueError"
  using assms by (simp add: np_setslice_def slice_index_def Let_def)

lemma np_setslice_mid:
  assumes "length src = k" "lo + k \<le> length arr"
  shows "np_setslice arr (Some (int lo)) (Some (int lo + int k)) src
         = Inr (take lo arr @ src @ drop (lo + k) arr)"
  using assms by (simp add: np_setslice_def slice_index_def Let_def nat_add_distrib)

lemma np_setslice_mid_short:
  assumes "length src = k" "length arr < lo + k" "k \<noteq> 1" "0 < k" 
  shows "np_setslice arr (Some (int lo)) (Some (int lo + int k)) src = Inl ValueError"
  using assms by (auto simp add: np_setslice_def slice_index_def Let_def nat_add_distrib min_def)

lemma np_setslice_suffix:
  assumes "length src = k" "k \<le> length arr" "0 < k"
  shows "np_setslice arr (Some (- int k)) None src = Inr (take (length arr - k) arr @ src)"
  using assms by (simp add: np_setslice_def slice_index_def Let_def nat_diff_distrib)

lemma np_setslice_suffix_short:
  assumes "length src = k" "length arr < k" "k \<noteq> 1"
  shows "np_setslice arr (Some (- int k)) None src = Inl ValueError"
  using assms by (auto simp add: np_setslice_def slice_index_def Let_def)

section \<open>Facts about the envelope and the synthesized note\<close>

lemma linspace_attack: "np_linspace 0 1 882 = Inr attack_ramp"
  by (simp add: np_linspace_def attack_ramp_def)
lemma linspace_decay: "np_linspace 1 0.7 4410 = Inr decay_ramp"
  by (simp add: np_linspace_def decay_ramp_def)
lemma linspace_release: "np_linspace 0.7 0 13230 = Inr release_ramp"
  by (simp add: np_linspace_def release_ramp_def)

lemma length_attack_ramp: "length attack_ramp = 882" by (simp add: attack_ramp_def)
lemma length_decay_ramp: "length decay_ramp = 4410" by (simp add: decay_ramp_def)
lemma length_release_ramp: "length release_ramp = 13230" by (simp add: release_ramp_def)

lemma bind_err_Inr: "bind_err (Inr x) f = f x" by (simp add: bind_err_def)
lemma bind_err_Inl: "bind_err (Inl e) f = Inl e" by (simp add: bind_err_def)

lemma note_envelope_unfold:
  "note_envelope n =
     bind_err (np_setslice (replicate n 1) None (Some (int 882)) attack_ramp) (\<lambda>e1.
     bind_err (np_setslice e1 (Some (int 882)) (Some (int 882 + int 4410)) decay_ramp) (\<lambda>e2.
     np_setslice e2 (Some (- int 13230)) None release_ramp))"
  unfolding note_envelope_def Let_def attack_samples_eq decay_samples_eq release_samples_eq
  by (simp only: linspace_attack linspace_decay linspace_release bind_err_Inr of_nat_numeral
        divide_numeral_1) 

lemma note_envelope_short:
  assumes "n < 13230"
  shows "note_envelope n = Inl ValueError"
proof -
  consider "n < 882" | "882 \<le> n" "n < 5292" | "5292 \<le> n"
    by linarith
  then show ?thesis
  proof cases
    case 1
    have a: "np_setslice (replicate n 1) None (Some (int 882)) attack_ramp = Inl ValueError"
      using 1 by (intro np_setslice_prefix_short) (simp_all add: length_attack_ramp)
    show ?thesis
      by (simp only: note_envelope_unfold a bind_err_Inl)
  next
    case 2
    have a: "np_setslice (replicate n 1) None (Some (int 882)) attack_ramp
             = Inr (attack_ramp @ drop 882 (replicate n 1))"
      using 2 by (intro np_setslice_prefix) (simp_all add: length_attack_ramp)
    have b: "np_setslice (attack_ramp @ drop 882 (replicate n 1)) (Some (int 882))
               (Some (int 882 + int 4410)) decay_ramp = Inl ValueError"
      using 2 by (intro np_setslice_mid_short) (simp_all add: length_attack_ramp length_decay_ramp)
    show ?thesis
      by (simp only: note_envelope_unfold a b bind_err_Inr bind_err_Inl)
  next
    case 3
    have a: "np_setslice (replicate n 1) None (Some (int 882)) attack_ramp
             = Inr (attack_ramp @ drop 882 (replicate n 1))"
      using 3 by (intro np_setslice_prefix) (simp_all add: length_attack_ramp)
    have b: "np_setslice (attack_ramp @ drop 882 (replicate n 1)) (Some (int 882))
               (Some (int 882 + int 4410)) decay_ramp
             = Inr (take 882 (attack_ramp @ drop 882 (replicate n 1)) @ decay_ramp
                    @ drop (882 + 4410) (attack_ramp @ drop 882 (replicate n 1)))"
      using 3 by (intro np_setslice_mid) (simp_all add: length_attack_ramp length_decay_ramp)
    have c: "np_setslice (take 882 (attack_ramp @ drop 882 (replicate n 1)) @ decay_ramp
                    @ drop (882 + 4410) (attack_ramp @ drop 882 (replicate n 1)))
               (Some (- int 13230)) None release_ramp = Inl ValueError"
      using 3 assms
      by (intro np_setslice_suffix_short) (simp_all add: length_attack_ramp length_decay_ramp length_release_ramp)
    show ?thesis
      by (simp only: note_envelope_unfold a b c bind_err_Inr bind_err_Inl)
  qed
qed

lemma note_envelope_long:
  assumes "13230 \<le> n"
  shows "note_envelope n =
           Inr (take (n - 13230) (attack_ramp @ decay_ramp @ replicate (n - 5292) 1) @ release_ramp)"
proof -
  have a: "np_setslice (replicate n 1) None (Some (int 882)) attack_ramp
           = Inr (attack_ramp @ drop 882 (replicate n 1))"
    using assms by (intro np_setslice_prefix) (simp_all add: length_attack_ramp)
  have b: "np_setslice (attack_ramp @ drop 882 (replicate n 1)) (Some (int 882))
             (Some (int 882 + int 4410)) decay_ramp
           = Inr (take 882 (attack_ramp @ drop 882 (replicate n 1)) @ decay_ramp
                  @ drop (882 + 4410) (attack_ramp @ drop 882 (replicate n 1)))"
    using assms by (intro np_setslice_mid) (simp_all add: length_attack_ramp length_decay_ramp)
  have e2: "take 882 (attack_ramp @ drop 882 (replicate n 1)) @ decay_ramp
              @ drop (882 + 4410) (attack_ramp @ drop 882 (replicate n 1))
            = attack_ramp @ decay_ramp @ replicate (n - 5292) 1"
    using assms by (simp add: length_attack_ramp)
  have len: "length (attack_ramp @ decay_ramp @ replicate (n - 5292) (1::real)) = n"
    using assms by (simp add: length_attack_ramp length_decay_ramp)
  have c: "np_setslice (attack_ramp @ decay_ramp @ replicate (n - 5292) 1)
             (Some (- int 13230)) None release_ramp
           = Inr (take (length (attack_ramp @ decay_ramp @ replicate (n - 5292) (1::real)) - 13230)
                    (attack_ramp @ decay_ramp @ replicate (n - 5292) 1) @ release_ramp)"
    using assms len by (intro np_setslice_suffix) (simp_all add: length_release_ramp)
  show ?thesis
    by (simp only: note_envelope_unfold a b e2 c bind_err_Inr len)
qed

lemma length_note_envelope:
  assumes "note_envelope n = Inr env"
  shows "length env = n"
proof -
  have "13230 \<le> n"
    using assms note_envelope_short [of n] by (cases "n < 13230") simp_all
  then show ?thesis
    using assms
    by (auto simp add: note_envelope_long length_attack_ramp length_decay_ramp length_release_ramp)
qed

lemma length_add_harmonic:
  "length note = length t \<Longrightarrow> length (add_harmonic frequency t note ia) = length t"
  by (simp add: add_harmonic_def)

lemma length_foldl_add_harmonic:
  "length acc = length t \<Longrightarrow> length (foldl (add_harmonic frequency t) acc hs) = length t"
  by (induction hs arbitrary: acc) (simp_all add: length_add_harmonic)

lemma length_waveform: "length (waveform frequency t) = length t"
  by (simp add: waveform_def length_foldl_add_harmonic)

lemma harmonic_table: "py_enumerate (tl harmonics) 2 = [(2, 0.5), (3, 0.3), (4, 0.2)]"
  by (simp add: py_enumerate_def harmonics_def upt_rec)

lemma waveform_nth:
  assumes "i < length t"
  shows "waveform frequency t ! i =
           sin (2 * pi * frequency * (t ! i))
           + 0.5 * sin (2 * pi * frequency * 2 * (t ! i))
           + 0.3 * sin (2 * pi * frequency * 3 * (t ! i))
           + 0.2 * sin (2 * pi * frequency * 4 * (t ! i))"
  using assms by (simp add: waveform_def harmonic_table add_harmonic_def)

lemma waveform_bound:
  assumes "i < length t"
  shows "\<bar>waveform frequency t ! i\<bar> \<le> 2"
proof -
  have s: "\<bar>sin x\<bar> \<le> 1" for x :: real by (rule abs_sin_le_one)
  have "\<bar>waveform frequency t ! i\<bar>
        \<le> \<bar>sin (2 * pi * frequency * (t ! i))\<bar>
          + 0.5 * \<bar>sin (2 * pi * frequency * 2 * (t ! i))\<bar>
          + 0.3 * \<bar>sin (2 * pi * frequency * 3 * (t ! i))\<bar>
          + 0.2 * \<bar>sin (2 * pi * frequency * 4 * (t ! i))\<bar>"
    unfolding waveform_nth [OF assms] by (simp add: abs_mult) 
  also have "\<dots> \<le> 1 + 0.5 * 1 + 0.3 * 1 + 0.2 * 1"
    by (intro add_mono mult_left_mono s) simp_all
  finally show ?thesis by simp
qed

lemma generate_note_negative:
  assumes "py_int (real SAMPLE_RATE * duration) < 0"
  shows "generate_note frequency duration = Inl ValueError"
  using assms by (simp add: generate_note_def np_linspace_def bind_err_def)

lemma generate_note_short:
  assumes "py_int (real SAMPLE_RATE * duration) < 13230"
  shows "generate_note frequency duration = Inl ValueError"
proof (cases "py_int (real SAMPLE_RATE * duration) < 0")
  case True
  then show ?thesis by (rule generate_note_negative)
next
  case False
  then obtain t where t: "np_linspace 0 duration (py_int (real SAMPLE_RATE * duration)) = Inr t"
    and len: "length t = nat (py_int (real SAMPLE_RATE * duration))"
    using np_linspace_ok [of "py_int (real SAMPLE_RATE * duration)" 0 duration] by auto
  have "length t < 13230" using len assms False by linarith
  then have "note_envelope (length t) = Inl ValueError" by (rule note_envelope_short)
  then show ?thesis
    by (simp add: generate_note_def t bind_err_def)
qed

lemma generate_note_long:
  assumes "13230 \<le> py_int (real SAMPLE_RATE * duration)"
  shows "\<exists>t env. np_linspace 0 duration (py_int (real SAMPLE_RATE * duration)) = Inr t
           \<and> note_envelope (length t) = Inr env
           \<and> length t = nat (py_int (real SAMPLE_RATE * duration))
           \<and> generate_note frequency duration
               = Inr (map (\<lambda>x. x * 0.3) (map2 (*) (waveform frequency t) env))"
proof -
  obtain t where t: "np_linspace 0 duration (py_int (real SAMPLE_RATE * duration)) = Inr t"
    and len: "length t = nat (py_int (real SAMPLE_RATE * duration))"
    using np_linspace_ok [of "py_int (real SAMPLE_RATE * duration)" 0 duration] assms by auto
  have "13230 \<le> length t" using len assms by linarith
  then obtain env where env: "note_envelope (length t) = Inr env"
    using note_envelope_long by blast
  show ?thesis
    using t env len by (simp add: generate_note_def bind_err_def)
qed

lemma generate_note_Inr_cases:
  assumes "generate_note frequency duration = Inr buf"
  shows "\<exists>t env. note_envelope (length t) = Inr env \<and> 13230 \<le> length t
           \<and> buf = map (\<lambda>x. x * 0.3) (map2 (*) (waveform frequency t) env)"
proof -
  have "13230 \<le> py_int (real SAMPLE_RATE * duration)"
    using assms generate_note_short [of duration frequency]
    by (cases "py_int (real SAMPLE_RATE * duration) < 13230") simp_all
  then obtain t env where t: "note_envelope (length t) = Inr env"
      "length t = nat (py_int (real SAMPLE_RATE * duration))"
      "generate_note frequency duration
         = Inr (map (\<lambda>x. x * 0.3) (map2 (*) (waveform frequency t) env))"
    using generate_note_long [of duration frequency] by blast
  have "13230 \<le> length t"
    using t(2) \<open>13230 \<le> py_int (real SAMPLE_RATE * duration)\<close> by linarith
  moreover have "buf = map (\<lambda>x. x * 0.3) (map2 (*) (waveform frequency t) env)"
    using assms t(3) by simp
  ultimately show ?thesis
    using t(1) by blast
qed

lemma attack_ramp_range: "x \<in> set attack_ramp \<Longrightarrow> 0 \<le> x \<and> x \<le> 1"
  by (auto simp add: attack_ramp_def)

lemma decay_ramp_range: "x \<in> set decay_ramp \<Longrightarrow> 0 \<le> x \<and> x \<le> 1"
  by (auto simp add: decay_ramp_def field_simps)

lemma release_ramp_range: "x \<in> set release_ramp \<Longrightarrow> 0 \<le> x \<and> x \<le> 1"
  by (auto simp add: release_ramp_def field_simps)

lemma note_envelope_range:
  assumes "note_envelope n = Inr env" "x \<in> set env"
  shows "0 \<le> x \<and> x \<le> 1"
proof -
  have "13230 \<le> n"
    using assms(1) note_envelope_short [of n] by (cases "n < 13230") simp_all
  then have "env = take (n - 13230) (attack_ramp @ decay_ramp @ replicate (n - 5292) 1) @ release_ramp"
    using assms(1) by (simp add: note_envelope_long)
  then have "x \<in> set (take (n - 13230) (attack_ramp @ decay_ramp @ replicate (n - 5292) 1))
             \<or> x \<in> set release_ramp"
    using assms(2) by simp
  then have "x \<in> set attack_ramp \<or> x \<in> set decay_ramp \<or> x = 1 \<or> x \<in> set release_ramp"
    by (auto dest!: in_set_takeD)
  then show ?thesis
    using attack_ramp_range decay_ramp_range release_ramp_range by fastforce
qed

lemma length_generate_note:
  assumes "generate_note frequency duration = Inr buf"
  shows "int (length buf) = py_int (real SAMPLE_RATE * duration)"
proof -
  have ge: "13230 \<le> py_int (real SAMPLE_RATE * duration)"
    using assms generate_note_short [of duration frequency]
    by (cases "py_int (real SAMPLE_RATE * duration) < 13230") simp_all
  then obtain t env where t: "note_envelope (length t) = Inr env"
      "length t = nat (py_int (real SAMPLE_RATE * duration))"
      "generate_note frequency duration
         = Inr (map (\<lambda>x. x * 0.3) (map2 (*) (waveform frequency t) env))"
    using generate_note_long [of duration frequency] by blast
  have "length env = length t" using t(1) by (rule length_note_envelope)
  then have "length buf = length t"
    using assms t(3) by (auto simp add: length_waveform)
  then show ?thesis using t(2) ge by simp
qed

lemma one_second_samples: "py_int (real SAMPLE_RATE * 1) = 44100"
  by (simp add: py_int_def SAMPLE_RATE_def)

lemma fast_beat_samples: "py_int (real SAMPLE_RATE * (60 / 300)) = 8820"
  by (simp add: py_int_def SAMPLE_RATE_def)

section \<open>Facts about the metronome track\<close>

lemma click_samples_eq: "py_int (0.05 * real SAMPLE_RATE) = 2205"
  by (simp add: py_int_def SAMPLE_RATE_def)

lemma length_metronome_click: "length metronome_click = 2205"
  by (simp add: metronome_click_def)

lemma linspace_click:
  "np_linspace 0 0.05 2205
     = Inr (map (\<lambda>i. 0 + real i * ((0.05 - 0) / real_of_int (2205 - 1))) [0..<nat 2205])"
  by (simp add: np_linspace_def)

lemma np_addslice_exact:
  assumes "lo + length src \<le> length arr"
  shows "np_addslice arr (Some (int lo)) (Some (int lo + int (length src))) src
         = Inr (take lo arr @ map2 (+) (take (length src) (drop lo arr)) src
                @ drop (lo + length src) arr)"
  using assms by (simp add: np_addslice_def slice_index_def Let_def nat_add_distrib)

text \<open>The loop invariant: after k passes, k padded clicks followed by silence.\<close>

lemma metronome_loop:
  assumes "length pc = spb" "k \<le> n"
  shows "foldl (metronome_step (int spb) pc) (Inr (replicate (n * spb) 0)) [0..<k]
         = Inr (concat (replicate k pc) @ replicate ((n - k) * spb) 0)"
  using assms(2)
proof (induction k)
  case 0
  then show ?case by simp
next
  case (Suc k)
  then have k: "k < n" by simp
  have len: "length (concat (replicate k pc)) = k * spb"
    using assms(1) by (induction k) simp_all
  let ?arr = "concat (replicate k pc) @ replicate ((n - k) * spb) (0::real)"
  have split: "(n - k) * spb = spb + (n - Suc k) * spb"
    using k by (metis Suc_diff_Suc mult_Suc)
  have fits: "k * spb + length pc \<le> length ?arr"
    using len assms(1) split by simp
  have step: "np_addslice ?arr (Some (int (k * spb))) (Some (int (k * spb) + int (length pc))) pc
          = Inr (take (k * spb) ?arr @ map2 (+) (take (length pc) (drop (k * spb) ?arr)) pc
                @ drop (k * spb + length pc) ?arr)"
    by (rule np_addslice_exact [OF fits])
  have t: "take (k * spb) ?arr = concat (replicate k pc)"
    using len by simp
  have d: "drop (k * spb) ?arr = replicate spb 0 @ replicate ((n - Suc k) * spb) 0"
    using len split by (simp add: replicate_add)
  have mid: "map2 (+) (take (length pc) (drop (k * spb) ?arr)) pc = pc"
    unfolding d using assms(1)
    by (auto simp add: list_eq_iff_nth_eq)
  have rest: "drop (k * spb + length pc) ?arr = replicate ((n - Suc k) * spb) 0"
    using len assms(1) split by simp
  have "foldl (metronome_step (int spb) pc) (Inr (replicate (n * spb) 0)) [0..<Suc k]
        = metronome_step (int spb) pc (Inr ?arr) k"
    using Suc k by simp
  also have "\<dots> = np_addslice ?arr (Some (int (k * spb))) (Some (int (k * spb) + int (length pc))) pc"
    by (simp add: metronome_step_def bind_err_def Let_def)
  also have "\<dots> = Inr (concat (replicate k pc) @ pc @ replicate ((n - Suc k) * spb) 0)"
    unfolding step t mid rest ..
  also have "concat (replicate k pc) @ pc @ replicate ((n - Suc k) * spb) 0
             = concat (replicate (Suc k) pc) @ replicate ((n - Suc k) * spb) 0"
  proof -
    have "replicate (Suc k) pc = replicate k pc @ [pc]"
      by (simp add: replicate_append_same)
    then have "concat (replicate (Suc k) pc) = concat (replicate k pc) @ pc"
      by (simp only: concat_append concat.simps append_Nil2)
    then show ?thesis by simp
  qed
  finally show ?case .
qed

lemma generate_metronome_layout:
  assumes "bpm \<noteq> 0" "0 \<le> num_beats"
    and "py_int (60 / real_of_int bpm * real SAMPLE_RATE) = int spb" "2205 \<le> spb"
  shows "generate_metronome bpm num_beats
         = Inr (concat (replicate (nat num_beats)
                  (metronome_click @ replicate (spb - 2205) 0)))"
proof -
  let ?pc = "metronome_click @ replicate (spb - 2205) (0::real)"
  have lpc: "length ?pc = spb"
    using assms(4) by (simp add: length_metronome_click)
  have pad: "np_pad_right metronome_click (int spb - int (length metronome_click)) = Inr ?pc"
    using assms(4) by (simp add: np_pad_right_def length_metronome_click nat_diff_distrib)
  have zeros: "np_zeros (num_beats * int spb) = Inr (replicate (nat num_beats * spb) 0)"
  proof -
    have "0 \<le> num_beats * int spb" using assms(2) by simp
    then show ?thesis
      using assms(2) by (simp add: np_zeros_def nat_mult_distrib not_less)
  qed
  have loop: "foldl (metronome_step (int spb) ?pc) (Inr (replicate (nat num_beats * spb) 0))
                [0..<nat num_beats]
              = Inr (concat (replicate (nat num_beats) ?pc)
                     @ replicate ((nat num_beats - nat num_beats) * spb) 0)"
    by (rule metronome_loop [OF lpc]) simp
  have "generate_metronome bpm num_beats
        = bind_err (np_pad_right metronome_click (int spb - int (length metronome_click)))
            (\<lambda>click. bind_err (np_zeros (num_beats * int spb))
               (\<lambda>metronome. foldl (metronome_step (int spb) click) (Inr metronome)
                                 [0..<nat num_beats]))"
    unfolding generate_metronome_def py_truediv_def Let_def click_samples_eq
    using assms(1) by (simp only: if_False bind_err_Inr linspace_click assms(3)
        metronome_click_def [symmetric])
  also have "\<dots> = foldl (metronome_step (int spb) ?pc) (Inr (replicate (nat num_beats * spb) 0))
                [0..<nat num_beats]"
    by (simp only: pad zeros bind_err_Inr)
  finally show ?thesis
    using loop by simp
qed

lemma beat_samples_120: "py_int (60 / real_of_int 120 * real SAMPLE_RATE) = int 22050"
  by (simp add: py_int_def SAMPLE_RATE_def)

lemma metronome_click_nth1:
  "metronome_click ! 1 = sin (2 * pi * 1000 * (0.05 / 2204)) * exp (- 10 * (0.05 / 2204))"
proof -
  have "metronome_click ! 1
        = (\<lambda>x. sin (2 * pi * 1000 * x) * exp (- 10 * x))
            ((\<lambda>i. 0 + real i * ((0.05 - 0) / real_of_int (2205 - 1))) ([0..<nat 2205] ! 1))"
    unfolding metronome_click_def by (simp only: nth_map length_map length_upt) simp
  also have "[0..<nat 2205] ! 1 = 1"
    by simp
  finally show ?thesis by simp
qed

lemma click_sample_nonzero:
  "sin (2 * pi * 1000 * (0.05 / 2204)) * exp (- 10 * (0.05 / 2204)) \<noteq> (0::real)"
proof -
  have "0 < 2 * pi * 1000 * (0.05 / 2204)"
    by simp
  moreover have "2 * pi * 1000 * (0.05 / 2204) < pi"
    using pi_gt_zero by (simp add: field_simps)
  ultimately have "0 < sin (2 * pi * 1000 * (0.05 / 2204))"
    by (rule sin_gt_zero)
  then show ?thesis by simp
qed

section \<open>Facts about note naming, the progress store and the progression\<close>

lemma semitones_of_a4: "semitones_from_a4 440 = Inr 0"
  by (simp add: semitones_from_a4_def py_round_def)

lemma saved_progress_unbound:
  "saved_progress_get (load_progress_scope content) k d = Inl (NameError ''saved_progress'')"
  by (simp add: saved_progress_get_def py_name_def load_progress_scope_def bind_err_def)

lemma load_progress_try_raises:
  "load_progress_try st content = Inl (NameError ''saved_progress'')"
  by (simp add: load_progress_try_def Let_def saved_progress_unbound bind_err_def)

lemma load_progress_keeps: "load_progress st = st"
  by (simp add: load_progress_def load_progress_try_raises split: option.split)

lemmas note_table_defs =
  make_note_def calculate_note_frequency_def get_note_name_def py_dict_item_def
  py_list_item_def string_frequencies_def note_names_def bind_err_def Let_def

lemma position1_value:
  "\<exists>p. create_scale_position1 = Inr p \<and> scale_name p = ''Position 1 - A Minor Pentatonic''
       \<and> length (scale_notes p) = 12"
  by (simp add: create_scale_position1_def note_table_defs)

lemma position2_value:
  "\<exists>p. create_scale_position2 = Inr p \<and> scale_name p = ''Position 2 - A Minor Pentatonic''
       \<and> length (scale_notes p) = 12"
  by (simp add: create_scale_position2_def note_table_defs)

lemma position3_value:
  "\<exists>p. create_scale_position3 = Inr p \<and> scale_name p = ''Position 3 - A Minor Pentatonic''
       \<and> length (scale_notes p) = 12"
  by (simp add: create_scale_position3_def note_table_defs)

lemma position4_value:
  "\<exists>p. create_scale_position4 = Inr p \<and> scale_name p = ''Position 4 - A Minor Pentatonic''
       \<and> length (scale_notes p) = 12"
  by (simp add: create_scale_position4_def note_table_defs)

lemma position5_value:
  "\<exists>p. create_scale_position5 = Inr p \<and> scale_name p = ''Position 5 - A Minor Pentatonic''
       \<and> length (scale_notes p) = 12"
  by (simp add: create_scale_position5_def note_table_defs)

lemma scale_positions_value:
  "\<exists>p1 p2 p3 p4 p5.
     create_scale_position1 = Inr p1 \<and> create_scale_position2 = Inr p2
     \<and> create_scale_position3 = Inr p3 \<and> create_scale_position4 = Inr p4
     \<and> create_scale_position5 = Inr p5
     \<and> scale_name p1 = ''Position 1 - A Minor Pentatonic''
     \<and> scale_name p2 = ''Position 2 - A Minor Pentatonic''
     \<and> create_scale_positions
         = Inr [(''position1'', p1), (''position2'', p2), (''position3'', p3),
                (''position4'', p4), (''position5'', p5)]"
proof -
  obtain p1 p2 p3 p4 p5 where p:
    "create_scale_position1 = Inr p1" "create_scale_position2 = Inr p2"
    "create_scale_position3 = Inr p3" "create_scale_position4 = Inr p4"
    "create_scale_position5 = Inr p5"
    "scale_name p1 = ''Position 1 - A Minor Pentatonic''"
    "scale_name p2 = ''Position 2 - A Minor Pentatonic''"
    using position1_value position2_value position3_value position4_value position5_value
    by blast
  have "create_scale_positions
         = Inr [(''position1'', p1), (''position2'', p2), (''position3'', p3),
                (''position4'', p4), (''position5'', p5)]"
    by (simp add: create_scale_positions_def p bind_err_def)
  then show ?thesis using p by blast
qed

lemma trainer_init_value:
  assumes "create_scale_positions = Inr positions"
  shows "trainer_init file = Inr (fresh_trainer positions file)"
  by (simp add: trainer_init_def assms bind_err_def load_progress_keeps fresh_trainer_def)

lemma split_position1_name:
  "py_list_item (py_split ''Position 1 - A Minor Pentatonic'') (- 1) = Inr ''Pentatonic''"
  by (simp add: py_split_def py_isspace_def py_list_item_def)

lemma int_of_pentatonic: "py_int_of_str ''Pentatonic'' = Inl ValueError"
  by (simp add: py_int_of_str_def py_isspace_def py_isdigit_def Let_def)

lemma last_digit_position1:
  "bind_err (py_list_item ''position1'' (- 1)) (\<lambda>c. py_int_of_str [c]) = Inr 1"
  by (simp add: py_list_item_def bind_err_def py_int_of_str_def py_isspace_def py_isdigit_def
      Let_def digit_value_def)

lemma perfect_accuracy: "real 24 / real 24 * 100 = (100::real)"
  by simp

lemma cli_perfect_pass_advances:
  assumes "map_of positions ''position1'' = Some p1" "map_of positions ''position2'' = Some p2"
  shows "\<exists>st'. play_game_progress ''position1'' 24 24 (fresh_trainer positions None) = (st', None)
           \<and> current_bpm st' = 130 \<and> highest_bpm (progress st') = 130
           \<and> positions_unlocked (progress st') = [''position1'', ''position2'']"
  unfolding play_game_progress_def Let_def last_digit_position1 perfect_accuracy
  using assms
  by (simp add: fresh_trainer_def record_win_def store_accuracy_def unlock_next_def
      py_str_int_def save_progress_def Let_def)

section \<open>Facts about pitch detection\<close>

lemma np_add_NaN_right: "np_add a NaN = NaN"
  by (cases a) simp_all

lemma np_less_NaN_right: "np_less a NaN = False"
  by (cases a) simp_all

lemma foldl_np_add_NaN: "foldl np_add NaN xs = NaN"
  by (induction xs) simp_all

lemma np_sum_all_NaN:
  assumes "xs \<noteq> []" "\<And>x. x \<in> set xs \<Longrightarrow> x = NaN"
  shows "np_sum xs = NaN"
proof -
  obtain y ys where xs: "xs = y # ys" using assms(1) by (cases xs) auto
  then have "y = NaN" using assms(2) by simp
  then show ?thesis
    by (simp add: np_sum_def xs np_add_NaN_right foldl_np_add_NaN)
qed

lemma length_np_hanning: "length (np_hanning M) = M"
  by (simp add: np_hanning_def)

lemma np_max_zeros:
  assumes "xs \<noteq> []" "\<And>x. x \<in> set xs \<Longrightarrow> x = 0"
  shows "np_max (map abs xs) = Inr 0"
proof -
  have z: "foldl max (0::real) (map abs ys) = 0" if "\<And>x. x \<in> set ys \<Longrightarrow> x = 0" for ys
    using that by (induction ys) simp_all
  obtain y ys where xs: "xs = y # ys" using assms(1) by (cases xs) auto
  have y: "y = 0" using assms(2) xs by simp
  have "foldl max (0::real) (map abs ys) = 0"
    using assms(2) xs by (intro z) simp
  then show ?thesis
    by (simp add: np_max_def xs y)
qed

lemma correlate_terms_nonempty:
  assumes "0 < n" "j < n + n - 1"
  shows "filter (\<lambda>m. n - 1 \<le> m + j \<and> m + j - (n - 1) < n) [0..<n] \<noteq> []"
proof -
  define m where "m = (if j \<le> n - 1 then n - 1 - j else 0)"
  have "m < n"
    using assms unfolding m_def by arith
  moreover have "n - 1 \<le> m + j"
    using assms unfolding m_def by arith
  moreover have "m + j - (n - 1) < n"
  proof (cases "j \<le> n - 1")
    case True
    then show ?thesis using assms by (simp add: m_def)
  next
    case False
    then have "m = 0" by (simp add: m_def)
    then show ?thesis using assms(2) by simp
  qed
  ultimately have "m \<in> set (filter (\<lambda>m. n - 1 \<le> m + j \<and> m + j - (n - 1) < n) [0..<n])"
    by simp
  then show ?thesis
    by (metis empty_iff list.set(1))
qed

lemma np_correlate_full_all_NaN:
  assumes "0 < n"
  shows "np_correlate_full (replicate n NaN) (replicate n NaN) = Inr (replicate (n + n - 1) NaN)"
proof -
  let ?terms = "\<lambda>j. map (\<lambda>m. np_mul (replicate n NaN ! (m + j - (n - 1))) (replicate n NaN ! m))
                 (filter (\<lambda>m. n - 1 \<le> m + j \<and> m + j - (n - 1) < n) [0..<n])"
  have entry: "np_sum (?terms j) = NaN" if j: "j < n + n - 1" for j
  proof (rule np_sum_all_NaN)
    show "?terms j \<noteq> []"
      using correlate_terms_nonempty [OF assms j] by simp
  next
    fix x
    assume "x \<in> set (?terms j)"
    then obtain m where "m < n" "m + j - (n - 1) < n"
      and x: "x = np_mul (replicate n NaN ! (m + j - (n - 1))) (replicate n NaN ! m)"
      by auto
    then show "x = NaN" by simp
  qed
  have "map (\<lambda>j. np_sum (?terms j)) [0..<n + n - 1] = map (\<lambda>j. NaN) [0..<n + n - 1]"
  proof (rule map_cong [OF refl])
    fix j
    assume "j \<in> set [0..<n + n - 1]"
    then have "j < n + n - 1" by simp
    then show "np_sum (?terms j) = NaN" by (rule entry)
  qed
  then have "map (\<lambda>j. np_sum (?terms j)) [0..<n + n - 1] = replicate (n + n - 1) NaN"
    by (simp add: map_replicate_const)
  moreover have "np_correlate_full (replicate n NaN) (replicate n NaN)
                 = Inr (map (\<lambda>j. np_sum (?terms j)) [0..<n + n - 1])"
    using assms unfolding np_correlate_full_def by (simp only: length_replicate) simp
  ultimately show ?thesis by simp
qed

lemma local_maxima_all_NaN:
  assumes "\<And>k. k < length x \<Longrightarrow> x ! k = NaN"
  shows "local_maxima_from x i = []"
  using assms
proof (induction x i rule: local_maxima_from.induct)
  case (1 x i)
  show ?case
  proof (cases "i < length x - 1")
    case True
    then have "x ! i = NaN" using 1(4) by simp
    then have no: "\<not> np_less (x ! (i - 1)) (x ! i)"
      by (simp add: np_less_NaN_right)
    have "local_maxima_from x (i + 1) = []"
      using 1(3) [OF True no] 1(4) by blast
    then show ?thesis
      using True no by (subst local_maxima_from.simps) simp
  next
    case False
    then show ?thesis by (subst local_maxima_from.simps) simp
  qed
qed

lemma find_peaks_all_NaN: "find_peaks (replicate m NaN) h = []"
proof -
  have "local_maxima_from (replicate m NaN) 1 = []"
    by (rule local_maxima_all_NaN) simp
  then show ?thesis by (simp add: find_peaks_def)
qed

lemma detect_silence:
  assumes "\<And>x. x \<in> set audio_data \<Longrightarrow> x = 0"
  shows "detect_fundamental_frequency audio_data = Inr None"
proof (cases "length audio_data < CHUNK_SIZE")
  case True
  then show ?thesis by (simp add: detect_fundamental_frequency_def)
next
  case False
  define n where "n = length audio_data"
  have n: "0 < n" using False unfolding n_def CHUNK_SIZE_def by linarith
  then have ne: "audio_data \<noteq> []" unfolding n_def by simp
  have peak: "np_max (map abs audio_data) = Inr 0"
    using ne assms by (rule np_max_zeros)
  have norm: "map (\<lambda>x. np_div x 0) audio_data = replicate n NaN"
    using assms by (simp add: n_def map_replicate_const [symmetric] cong: map_cong)
  have win: "map2 np_mul (replicate n NaN) (map Num (np_hanning n)) = replicate n NaN"
    by (rule nth_equalityI) (simp_all add: length_np_hanning)
  have corr: "np_correlate_full (replicate n NaN) (replicate n NaN) = Inr (replicate (n + n - 1) NaN)"
    using n by (rule np_correlate_full_all_NaN)
  show ?thesis
    unfolding detect_fundamental_frequency_def Let_def
    using False
    by (simp only: if_False peak bind_err_Inr norm length_replicate win corr n_def [symmetric])
       (simp add: find_peaks_all_NaN)
qed

lemma foldl_np_add_Num: "foldl np_add (Num acc) (map Num xs) = Num (acc + sum_list xs)"
  by (induction xs arbitrary: acc) (simp_all add: add.assoc)

lemma np_sum_Num: "np_sum (map Num xs) = Num (sum_list xs)"
  by (simp add: np_sum_def foldl_np_add_Num)

lemma correlate_entry_Num:
  assumes "k < length y"
  shows "np_sum (map (\<lambda>m. np_mul (map Num y ! (m + (k + (length y - 1)) - (length y - 1)))
                              (map Num y ! m))
           (filter (\<lambda>m. length y - 1 \<le> m + (k + (length y - 1))
                         \<and> m + (k + (length y - 1)) - (length y - 1) < length y)
              [0..<length y]))
         = Num (autocorr y k)"
proof -
  have e: "m + (k + (length y - 1)) - (length y - 1) = m + k" for m
    by linarith
  have g: "length y - 1 \<le> m + (k + (length y - 1))" for m
    by linarith
  have "map (\<lambda>m. np_mul (map Num y ! (m + k)) (map Num y ! m))
             (filter (\<lambda>m. m + k < length y) [0..<length y])
           = map Num (map (\<lambda>m. y ! (m + k) * y ! m) (filter (\<lambda>m. m + k < length y) [0..<length y]))"
    unfolding map_map by (rule map_cong [OF refl]) simp
  then show ?thesis
    unfolding e by (simp only: g simp_thms np_sum_Num autocorr_def)
qed

lemma correlate_Num:
  assumes "y \<noteq> []"
  shows "\<exists>c. np_correlate_full (map Num y) (map Num y) = Inr c
           \<and> drop (length c div 2) c = map (\<lambda>k. Num (autocorr y k)) [0..<length y]"
proof -
  define n where "n = length y"
  have n: "0 < n" using assms by (simp add: n_def)
  let ?f = "\<lambda>j. np_sum (map (\<lambda>m. np_mul (map Num y ! (m + j - (n - 1))) (map Num y ! m))
                     (filter (\<lambda>m. n - 1 \<le> m + j \<and> m + j - (n - 1) < n) [0..<n]))"
  let ?c = "map ?f [0..<n + n - 1]"
  have c: "np_correlate_full (map Num y) (map Num y) = Inr ?c"
    using assms by (simp add: np_correlate_full_def n_def)
  have half: "length ?c div 2 = n - 1"
    using n by simp
  have "drop (n - 1) ?c = map ?f [n - 1..<n + n - 1]"
    by (simp add: drop_map)
  also have "[n - 1..<n + n - 1] = map (\<lambda>k. k + (n - 1)) [0..<n]"
  proof -
    have "n + n - 1 = n + (n - 1)" using n by linarith
    then show ?thesis by (simp only: map_add_upt)
  qed
  also have "map ?f (map (\<lambda>k. k + (n - 1)) [0..<n]) = map (\<lambda>k. Num (autocorr y k)) [0..<n]"
    unfolding map_map
  proof (rule map_cong [OF refl])
    fix k
    assume "k \<in> set [0..<n]"
    then have "k < length y" by (simp add: n_def)
    then show "(?f \<circ> (\<lambda>k. k + (n - 1))) k = Num (autocorr y k)"
      unfolding comp_def n_def by (rule correlate_entry_Num)
  qed
  finally have d: "drop (n - 1) ?c = map (\<lambda>k. Num (autocorr y k)) [0..<n]" .
  have "drop (length ?c div 2) ?c = drop (n - 1) ?c"
    by (simp only: half)
  also note d
  finally have "drop (length ?c div 2) ?c = map (\<lambda>k. Num (autocorr y k)) [0..<n]" .
  then show ?thesis
    using c unfolding n_def by blast
qed

lemma autocorr_as_sum:
  "autocorr y k = (\<Sum>m\<in>{..<length y}. if m + k < length y then y ! (m + k) * y ! m else 0)"
  by (simp add: autocorr_def sum_list_map_filter' interv_sum_list_conv_sum_set_nat
      atLeast0LessThan)

lemma autocorr_zero_lag_nonneg: "0 \<le> autocorr y 0"
  unfolding autocorr_as_sum by (rule sum_nonneg) simp

lemma autocorr_two_impulses:
  assumes "a < b" "b < length y" "0 < k"
    and zero: "\<And>i. i < length y \<Longrightarrow> i \<noteq> a \<Longrightarrow> i \<noteq> b \<Longrightarrow> y ! i = 0"
  shows "autocorr y k = (if k = b - a then y ! b * y ! a else 0)"
proof -
  let ?n = "length y"
  have tm: "(if m + k < ?n then y ! (m + k) * y ! m else 0)
              = (if m = a then (if k = b - a then y ! b * y ! a else 0) else 0)"
    if m: "m < ?n" for m
  proof (cases "m = a")
    case True
    show ?thesis
    proof (cases "k = b - a")
      case True
      then have "a + k = b" using assms(1) by simp
      then show ?thesis using \<open>m = a\<close> True assms(2) by simp
    next
      case False
      then have "a + k \<noteq> b" "a + k \<noteq> a" using assms(1,3) by auto
      then have "a + k < ?n \<Longrightarrow> y ! (a + k) = 0" using zero by blast
      then show ?thesis using \<open>m = a\<close> False by auto
    qed
  next
    case False
    show ?thesis
    proof (cases "m = b")
      case True
      have "b + k \<noteq> a" "b + k \<noteq> b" using assms(1,3) by auto
      then have "b + k < ?n \<Longrightarrow> y ! (b + k) = 0" using zero by blast
      then show ?thesis using True False by auto
    next
      case nb: False
      then have "y ! m = 0" using zero m False by blast
      then show ?thesis using False by simp
    qed
  qed
  have "autocorr y k
        = (\<Sum>m\<in>{..<?n}. if m = a then (if k = b - a then y ! b * y ! a else 0) else 0)"
    unfolding autocorr_as_sum by (rule sum.cong [OF refl]) (simp add: tm)
  also have "\<dots> = (if k = b - a then y ! b * y ! a else 0)"
    using assms(1,2) by (simp add: sum.delta')
  finally show ?thesis .
qed

lemma np_less_not_eq: "np_less a b \<Longrightarrow> \<not> np_eq b a"
  by (cases a; cases b) simp_all

lemma local_maxima_no_rise:
  assumes "i \<le> L"
    and "\<And>j. i \<le> j \<Longrightarrow> j < L \<Longrightarrow> \<not> np_less (x ! (j - 1)) (x ! j)"
  shows "local_maxima_from x i = local_maxima_from x L"
  using assms
proof (induction "L - i" arbitrary: i)
  case 0
  then show ?case by simp
next
  case (Suc d)
  then have lt: "i < L" and d: "d = L - (i + 1)" by simp_all
  have no: "\<not> np_less (x ! (i - 1)) (x ! i)"
    using Suc.prems(2) lt by simp
  have rest: "local_maxima_from x (i + 1) = local_maxima_from x L"
    using Suc.hyps(1) [OF d] lt Suc.prems(2) by simp
  show ?case
  proof (cases "i < length x - 1")
    case True
    then show ?thesis
      using no rest by (subst local_maxima_from.simps) simp
  next
    case False
    then have "\<not> L < length x - 1" using lt by simp
    then have "local_maxima_from x L = []"
      by (subst local_maxima_from.simps) simp
    moreover have "local_maxima_from x i = []"
      using False by (subst local_maxima_from.simps) simp
    ultimately show ?thesis by simp
  qed
qed

lemma local_maxima_sharp_peak:
  assumes "L < length x - 1" "np_less (x ! (L - 1)) (x ! L)" "np_less (x ! (L + 1)) (x ! L)"
  shows "local_maxima_from x L = L # local_maxima_from x (L + 2)"
proof -
  have "\<not> np_eq (x ! (L + 1)) (x ! L)"
    using assms(3) np_less_not_eq by (cases "x ! (L + 1)"; cases "x ! L") simp_all
  then have skip: "skip_plateau x L (Suc L) = Suc L"
    by (subst skip_plateau.simps) simp
  show ?thesis
    using assms by (subst local_maxima_from.simps) (simp add: skip)
qed

lemma find_peaks_first:
  assumes "1 \<le> L" "L < length x - 1"
    and "\<And>j. 1 \<le> j \<Longrightarrow> j < L \<Longrightarrow> \<not> np_less (x ! (j - 1)) (x ! j)"
    and "np_less (x ! (L - 1)) (x ! L)" "np_less (x ! (L + 1)) (x ! L)"
    and "np_le (Num h) (x ! L)"
  shows "\<exists>rest. find_peaks x h = L # rest"
proof -
  have "local_maxima_from x 1 = local_maxima_from x L"
    using assms(1,3) by (rule local_maxima_no_rise)
  also have "\<dots> = L # local_maxima_from x (L + 2)"
    using assms(2,4,5) by (rule local_maxima_sharp_peak)
  finally show ?thesis
    using assms(6) by (simp add: find_peaks_def)
qed

lemma np_max_Max:
  assumes "xs \<noteq> []"
  shows "np_max xs = Inr (Max (set xs))"
proof -
  obtain y ys where xs: "xs = y # ys" using assms by (cases xs) auto
  have "foldl max y ys = fold max ys y"
    by (simp add: foldl_conv_fold max.commute)
  also have "\<dots> = Max (set (y # ys))"
    by (rule Max.set_eq_fold [symmetric])
  finally show ?thesis
    by (simp add: np_max_def xs del: set_simps)
qed

lemma length_impulse_beat: "length impulse_beat = 22050"
  by (simp add: impulse_beat_def)

lemma impulse_beat_nth:
  assumes "i < 22050"
  shows "impulse_beat ! i = (if i = 10824 \<or> i = 11225 then 1 else 0)"
proof -
  consider "i < 10824" | "i = 10824" | "10824 < i" "i < 11225" | "i = 11225" | "11225 < i"
    by linarith
  then show ?thesis
  proof cases
    case 1
    then show ?thesis by (simp add: impulse_beat_def nth_append)
  next
    case 2
    then show ?thesis by (simp add: impulse_beat_def nth_append)
  next
    case 3
    then have "i - 10824 - 1 < 400" by linarith
    then show ?thesis using 3 by (simp add: impulse_beat_def nth_append)
  next
    case 4
    then show ?thesis by (simp add: impulse_beat_def nth_append)
  next
    case 5
    then have "i - 11226 < 10824" using assms by linarith
    then show ?thesis using 5 by (simp add: impulse_beat_def nth_append)
  qed
qed

lemma impulse_beat_peak: "np_max (map abs impulse_beat) = Inr 1"
proof -
  have "set (map abs impulse_beat) = {0, 1}"
    by (auto simp add: impulse_beat_def)
  then have "Max (set (map abs impulse_beat)) = 1"
    by simp
  moreover have "map abs impulse_beat \<noteq> []"
    by (simp add: impulse_beat_def)
  ultimately show ?thesis
    by (simp add: np_max_Max)
qed

lemma np_hanning_nth:
  assumes "1 < M" "i < M"
  shows "np_hanning M ! i = 0.5 + 0.5 * cos (pi * (1 - real M + 2 * real i) / (real M - 1))"
  using assms by (simp add: np_hanning_def)

lemma np_hanning_middle:
  assumes "1 < M" "i < M" "\<bar>1 - real M + 2 * real i\<bar> \<le> (real M - 1) / 2"
  shows "1 / 2 \<le> np_hanning M ! i"
proof -
  let ?t = "1 - real M + 2 * real i"
  have pos: "0 < real M - 1" using assms(1) by simp
  have "\<bar>pi * ?t / (real M - 1)\<bar> = pi * (\<bar>?t\<bar> / (real M - 1))"
    using pos by (simp add: abs_mult)
  also have "\<bar>?t\<bar> / (real M - 1) \<le> 1 / 2"
    using assms(3) pos by (simp add: field_simps)
  finally have "\<bar>pi * ?t / (real M - 1)\<bar> \<le> pi / 2"
    by simp
  then have "0 \<le> cos (pi * ?t / (real M - 1))"
    by (intro cos_ge_zero) linarith+
  then show ?thesis
    unfolding np_hanning_nth [OF assms(1,2)] by simp
qed

lemma np_less_Num: "np_less (Num a) (Num b) = (a < b)"
  by simp

lemma detect_impulse_beat:
  "detect_fundamental_frequency impulse_beat = Inr (Some (44100 / 401))"
proof -
  define h where "h = np_hanning 22050"
  define y where "y = map2 (*) impulse_beat h"
  have lh: "length h = 22050" by (simp add: h_def length_np_hanning)
  have ly: "length y = 22050" by (simp add: y_def lh length_impulse_beat)
  have ynth: "y ! i = impulse_beat ! i * h ! i" if "i < 22050" for i
    using that by (simp add: y_def lh length_impulse_beat)
  have yzero: "y ! i = 0" if "i < length y" "i \<noteq> 10824" "i \<noteq> 11225" for i
    using that ynth [of i] impulse_beat_nth [of i] by (simp add: ly)
  have ha: "1 / 2 \<le> h ! 10824"
    unfolding h_def by (rule np_hanning_middle) simp_all
  have hb: "1 / 2 \<le> h ! 11225"
    unfolding h_def by (rule np_hanning_middle) simp_all
  have ya: "y ! 10824 = h ! 10824"
    using ynth [of 10824] impulse_beat_nth [of 10824] by simp
  have yb: "y ! 11225 = h ! 11225"
    using ynth [of 11225] impulse_beat_nth [of 11225] by simp
  have "1 / 2 * (1 / 2) \<le> h ! 11225 * h ! 10824"
    using ha hb by (intro mult_mono) simp_all
  then have height: "1 / 4 \<le> y ! 11225 * y ! 10824"
    by (simp add: ya yb)
  have lag: "autocorr y k = (if k = 401 then y ! 11225 * y ! 10824 else 0)" if "0 < k" for k
    using autocorr_two_impulses [of 10824 11225 y k] that yzero by (simp add: ly)
  \<comment> \<open>the pipeline up to the autocorrelation\<close>
  have norm: "map (\<lambda>x. np_div x 1) impulse_beat = map Num impulse_beat"
    by simp
  have win: "map2 np_mul (map Num impulse_beat) (map Num h) = map Num y"
    by (rule nth_equalityI) (simp_all add: y_def lh length_impulse_beat)
  have "y \<noteq> []" using ly by auto
  then obtain c where c: "np_correlate_full (map Num y) (map Num y) = Inr c"
    and half: "drop (length c div 2) c = map (\<lambda>k. Num (autocorr y k)) [0..<length y]"
    using correlate_Num by blast
  define x where "x = map (\<lambda>k. Num (autocorr y k)) [0..<length y]"
  have lx: "length x = 22050" by (simp add: x_def ly)
  have xnth: "x ! k = Num (autocorr y k)" if "k < 22050" for k
    using that by (simp add: x_def ly)
  \<comment> \<open>the first peak\<close>
  have flat: "\<not> np_less (x ! (j - 1)) (x ! j)" if "1 \<le> j" "j < 401" for j
  proof (cases "j = 1")
    case True
    have "x ! 0 = Num (autocorr y 0)" "x ! 1 = Num 0"
      using xnth [of 0] xnth [of 1] lag [of 1] by simp_all
    then show ?thesis
      using True autocorr_zero_lag_nonneg [of y] by simp
  next
    case False
    then have j: "0 < j - 1" "j - 1 < 22050" "j - 1 \<noteq> 401" "0 < j" "j < 22050" "j \<noteq> 401"
      using that by linarith+
    have "x ! (j - 1) = Num 0"
      using xnth [OF j(2)] lag [OF j(1)] j(3) by simp
    moreover have "x ! j = Num 0"
      using xnth [OF j(5)] lag [OF j(4)] j(6) by simp
    ultimately show ?thesis by simp
  qed
  have x400: "x ! (401 - 1) = Num 0"
    using xnth [of 400] lag [of 400] by simp
  have x401: "x ! 401 = Num (y ! 11225 * y ! 10824)"
    using xnth [of 401] lag [of 401] by simp
  have x402: "x ! (401 + 1) = Num 0"
    using xnth [of 402] lag [of 402] by simp
  have "\<exists>rest. find_peaks x (1 / 10) = 401 # rest"
  proof (rule find_peaks_first)
    show "1 \<le> (401::nat)" by simp
    show "401 < length x - 1" by (simp add: lx)
    show "\<not> np_less (x ! (j - 1)) (x ! j)" if "1 \<le> j" "j < 401" for j
      using that by (rule flat)
    show "np_less (x ! (401 - 1)) (x ! 401)"
      unfolding x400 x401 using height by simp
    show "np_less (x ! (401 + 1)) (x ! 401)"
      unfolding x402 x401 using height by simp
    show "np_le (Num (1 / 10)) (x ! 401)"
      unfolding x401 np_le_def using height by simp
  qed
  then obtain rest where peaks: "find_peaks x (1 / 10) = 401 # rest" by blast
  show ?thesis
    unfolding detect_fundamental_frequency_def Let_def
    by (simp add: length_impulse_beat CHUNK_SIZE_def impulse_beat_peak bind_err_Inr
        h_def [symmetric] win c half x_def [symmetric] peaks SAMPLE_RATE_def)
qed

lemma log2_8: "log 2 (8::real) = 3"
proof -
  have "log 2 ((2::real) ^ 3) = real 3"
    by (rule log_pow_cancel) simp_all
  then show ?thesis by simp
qed

lemma log2_32: "log 2 (32::real) = 5"
proof -
  have "log 2 ((2::real) ^ 5) = real 5"
    by (rule log_pow_cancel) simp_all
  then show ?thesis by simp
qed

lemma detected_ratio_log_lower: "3 / 8 \<le> log 2 (1470000 / 1101547 :: real)"
proof -
  have p: "(8::real) \<le> (1470000 / 1101547) ^ 8"
    by (simp add: power_divide)
  have "log 2 (8::real) \<le> log 2 ((1470000 / 1101547) ^ 8)"
  proof (rule iffD2 [OF log_le_cancel_iff])
    show "1 < (2::real)" by simp
    show "0 < (8::real)" by simp
    show "0 < (1470000 / 1101547 :: real) ^ 8" by (rule zero_less_power) simp
    show "(8::real) \<le> (1470000 / 1101547) ^ 8" by (rule p)
  qed
  also have "log 2 ((1470000 / 1101547 :: real) ^ 8) = real 8 * log 2 (1470000 / 1101547)"
    by (rule log_nat_power) simp
  finally show ?thesis
    unfolding log2_8 by simp
qed

lemma detected_ratio_log_upper: "log 2 (1470000 / 1101547 :: real) \<le> 5 / 12"
proof -
  have p: "(1470000 / 1101547 :: real) ^ 12 \<le> 32"
    by (simp add: power_divide)
  have "real 12 * log 2 (1470000 / 1101547 :: real) = log 2 ((1470000 / 1101547) ^ 12)"
    by (rule log_nat_power [symmetric]) simp
  also have "\<dots> \<le> log 2 (32::real)"
  proof (rule iffD2 [OF log_le_cancel_iff])
    show "1 < (2::real)" by simp
    show "0 < (32::real)" by simp
    show "0 < (1470000 / 1101547 :: real) ^ 12" by (rule zero_less_power) simp
    show "(1470000 / 1101547 :: real) ^ 12 \<le> 32" by (rule p)
  qed
  finally show ?thesis
    unfolding log2_32 by simp
qed

lemma detected_ratio_string6:
  "log 2 ((44100 / 401) / (82.41 * 2 powr e))
     = log 2 (1470000 / 1101547 :: real) - e"
proof -
  have "(44100 / 401) / (82.41 * 2 powr e) = (1470000 / 1101547) / 2 powr e"
    by simp
  also have "log 2 ((1470000 / 1101547) / 2 powr e)
             = log 2 (1470000 / 1101547 :: real) - log 2 (2 powr e)"
    by (rule log_divide_pos) simp_all
  also have "log 2 (2 powr e) = e"
    by simp
  finally show ?thesis .
qed

lemma impulse_matches_first_note:
  "within_tolerance (44100 / 401) (82.41 * 2 powr (5 / 12))"
proof -
  have "0 < (44100 / 401) / (82.41 * 2 powr (5 / 12) :: real)"
    by simp
  moreover have "\<bar>12 * log 2 ((44100 / 401) / (82.41 * 2 powr (5 / 12)))\<bar> \<le> 1 / 2"
    unfolding detected_ratio_string6
    using detected_ratio_log_lower detected_ratio_log_upper by (simp add: abs_le_iff)
  ultimately show ?thesis
    unfolding within_tolerance_def FREQUENCY_TOLERANCE_def by simp
qed

lemma impulse_misses_second_note:
  "\<not> within_tolerance (44100 / 401) (82.41 * 2 powr (8 / 12))"
proof -
  have "12 * log 2 ((44100 / 401) / (82.41 * 2 powr (8 / 12))) < - (1 / 2)"
    unfolding detected_ratio_string6
    using detected_ratio_log_upper by simp
  then have "\<not> \<bar>12 * log 2 ((44100 / 401) / (82.41 * 2 powr (8 / 12)))\<bar> \<le> 1 / 2"
    by linarith
  then show ?thesis
    unfolding within_tolerance_def FREQUENCY_TOLERANCE_def by simp
qed

section \<open>Facts about scoring\<close>

lemma collect_note_silent:
  assumes "\<And>x. x \<in> set chunk \<Longrightarrow> x = 0"
  shows "collect_note (Inr acc) chunk = Inr acc"
  using detect_silence [of chunk] assms
  by (simp add: collect_note_def bind_err_def)

lemma collect_notes_silent:
  assumes "\<And>chunk x. chunk \<in> set chunks \<Longrightarrow> x \<in> set chunk \<Longrightarrow> x = 0"
  shows "foldl collect_note (Inr acc) chunks = Inr acc"
  using assms
proof (induction chunks)
  case Nil
  then show ?case by simp
next
  case (Cons c cs)
  have "collect_note (Inr acc) c = Inr acc"
    using Cons.prems by (intro collect_note_silent) auto
  moreover have "foldl collect_note (Inr acc) cs = Inr acc"
    using Cons.prems by (intro Cons.IH) auto
  ultimately show ?case
    by simp
qed

lemma collect_note_impulse:
  "collect_note (Inr acc) impulse_beat = Inr (acc @ [44100 / 401])"
  by (simp add: collect_note_def bind_err_def detect_impulse_beat length_impulse_beat
      CHUNK_SIZE_def)

lemma length_playing_part: "length playing_part = 529272"
  by (simp add: playing_part_def length_impulse_beat)

lemma drop_count_in: "drop 88200 late_recording = playing_part"
  by (simp add: late_recording_def playing_part_def)

lemma length_late_recording: "length late_recording = 617472"
  by (simp add: late_recording_def length_impulse_beat)

lemma chunk0: "take 22050 (drop (0 * 22050) playing_part) = replicate 22050 0"
  by (simp add: playing_part_def)

lemma chunk1: "take 22050 (drop (1 * 22050) playing_part) = impulse_beat"
  by (simp add: playing_part_def length_impulse_beat)

lemma chunk_later:
  assumes "2 \<le> k"
  shows "take 22050 (drop (k * 22050) playing_part)
         = replicate (min 22050 (485172 - (k * 22050 - 44100))) 0"
proof -
  have k: "22050 \<le> k * 22050" "22050 \<le> k * 22050 - 22050" "k * 22050 - 22050 - 22050 = k * 22050 - 44100"
    using assms by simp_all
  have "drop (k * 22050) playing_part = drop (k * 22050 - 44100) (replicate 485172 0)"
    unfolding playing_part_def using k by (simp add: length_impulse_beat)
  then show ?thesis by simp
qed

lemma beats_0_to_25: "[0..<25] = 0 # 1 # [2..<25]"
proof -
  have "[0..<25] = 0 # [Suc 0..<25]"
    by (rule upt_conv_Cons) simp
  also have "[Suc 0..<25] = Suc 0 # [Suc (Suc 0)..<25]"
    by (rule upt_conv_Cons) simp
  finally show ?thesis
    by (simp only: numeral_2_eq_2 One_nat_def)
qed

lemma range_of_playing_part:
  "py_range_step 529272 22050 = Inr (map (\<lambda>k. k * 22050) [0..<25])"
proof -
  have "(529272 + nat 22050 - 1) div nat 22050 = (25::nat)"
    by simp
  then show ?thesis
    unfolding py_range_step_def by simp
qed

lemma beat_chunks_value:
  "beat_chunks playing_part 22050
     = Inr (replicate 22050 0 # impulse_beat
            # map (\<lambda>k. take 22050 (drop (k * 22050) playing_part)) [2..<25])"
proof -
  have "beat_chunks playing_part 22050
        = Inr (map (\<lambda>i. take (nat 22050) (drop i playing_part))
                 (map (\<lambda>k. k * 22050) [0..<25]))"
    unfolding beat_chunks_def length_playing_part range_of_playing_part bind_err_Inr ..
  also have "map (\<lambda>i. take (nat 22050) (drop i playing_part)) (map (\<lambda>k. k * 22050) [0..<25])
             = map (\<lambda>k. take 22050 (drop (k * 22050) playing_part)) [0..<25]"
    by (simp add: comp_def del: upt_rec_numeral)
  also have "\<dots> = take 22050 (drop (0 * 22050) playing_part)
                   # take 22050 (drop (1 * 22050) playing_part)
                   # map (\<lambda>k. take 22050 (drop (k * 22050) playing_part)) [2..<25]"
    unfolding beats_0_to_25 by (simp only: list.map)
  finally show ?thesis
    unfolding chunk0 chunk1 .
qed

lemma later_chunks_silent:
  assumes "chunk \<in> set (map (\<lambda>k. take 22050 (drop (k * 22050) playing_part)) [2..<25])"
    and "x \<in> set chunk"
  shows "x = 0"
proof -
  obtain k where k: "2 \<le> k" and chunk: "chunk = take 22050 (drop (k * 22050) playing_part)"
    using assms(1) by (auto simp del: upt_rec_numeral)
  have "chunk = replicate (min 22050 (485172 - (k * 22050 - 44100))) 0"
    unfolding chunk using k by (rule chunk_later)
  then show ?thesis
    using assms(2) by (simp split: if_splits)
qed

lemma detect_notes_late_recording: "detect_notes late_recording 120 = Inr [44100 / 401]"
proof -
  let ?rest = "map (\<lambda>k. take 22050 (drop (k * 22050) playing_part)) [2..<25]"
  have t: "py_truediv 60 120 = Inr (1 / 2)"
    by (simp add: py_truediv_def)
  have s: "py_int (4 * (1 / 2) * real SAMPLE_RATE) = 88200"
    "py_int (1 / 2 * real SAMPLE_RATE) = 22050"
    by (simp_all add: py_int_def SAMPLE_RATE_def)
  have i: "slice_index (length late_recording) (Some 88200) 0 = 88200"
    by (simp add: slice_index_def length_late_recording)
  have "detect_notes late_recording 120
        = bind_err (beat_chunks playing_part 22050) (\<lambda>chunks. foldl collect_note (Inr []) chunks)"
    unfolding detect_notes_def Let_def t bind_err_Inr s i drop_count_in ..
  also have "\<dots> = foldl collect_note (Inr []) (replicate 22050 0 # impulse_beat # ?rest)"
    unfolding beat_chunks_value bind_err_Inr ..
  also have "\<dots> = foldl collect_note
                     (collect_note (collect_note (Inr []) (replicate 22050 0)) impulse_beat) ?rest"
    by (simp only: foldl.simps)
  also have "collect_note (Inr []) (replicate 22050 0) = Inr []"
    by (rule collect_note_silent) simp
  also have "collect_note (Inr []) impulse_beat = Inr ([] @ [44100 / 401])"
    by (rule collect_note_impulse)
  also have "foldl collect_note (Inr ([] @ [44100 / 401])) ?rest = Inr ([] @ [44100 / 401])"
    by (rule collect_notes_silent) (rule later_chunks_silent)
  finally show ?thesis by simp
qed

lemma position1_first_notes:
  "\<exists>p rest. create_scale_position1 = Inr p
     \<and> scale_notes p
         = \<lparr>note_fret = 5, note_string = 6, note_frequency = 82.41 * 2 powr (5 / 12),
             note_name = ''A''\<rparr>
           # \<lparr>note_fret = 8, note_string = 6, note_frequency = 82.41 * 2 powr (8 / 12),
               note_name = ''C''\<rparr>
           # rest"
  by (simp add: create_scale_position1_def note_table_defs)

lemma count_correct_shifted:
  assumes "scale_notes p
         = \<lparr>note_fret = 5, note_string = 6, note_frequency = 82.41 * 2 powr (5 / 12),
             note_name = ''A''\<rparr>
           # \<lparr>note_fret = 8, note_string = 6, note_frequency = 82.41 * 2 powr (8 / 12),
               note_name = ''C''\<rparr>
           # rest"
  shows "count_correct [44100 / 401] (expected_notes_of p) = Inr 1"
    and "\<not> within_tolerance (44100 / 401) (note_frequency (expected_notes_of p ! 1))"
proof -
  have "zip [44100 / 401 :: real] (expected_notes_of p)
        = [(44100 / 401, \<lparr>note_fret = 5, note_string = 6,
                             note_frequency = 82.41 * 2 powr (5 / 12), note_name = ''A''\<rparr>)]"
    by (simp add: expected_notes_of_def assms)
  then show "count_correct [44100 / 401] (expected_notes_of p) = Inr 1"
    using impulse_matches_first_note
    by (simp add: count_correct_def judge_note_def bind_err_def)
  have f: "note_frequency (expected_notes_of p ! 1) = 82.41 * 2 powr (8 / 12)"
    by (simp add: expected_notes_of_def assms)
  show "\<not> within_tolerance (44100 / 401) (note_frequency (expected_notes_of p ! 1))"
    unfolding f by (rule impulse_misses_second_note)
qed

section \<open>The claims about tone synthesis\<close>

text \<open>
  Claim C3 says that \<open>generate_note\<close> returns a buffer, without raising, for every
  beat duration \<open>60 / bpm\<close> with \<open>bpm\<close> between 40 and 300. At 300 beats per minute
  the beat lasts 0.2 s, the time axis has 8820 samples, and the release ramp of 13230
  samples does not fit the slice \<open>envelope[-13230:]\<close>, which numpy clamps to the whole
  array of 8820 samples: the assignment raises ValueError. The same happens for every
  tempo above 200 beats per minute.
\<close>

theorem generate_note_raises_at_300_bpm:
  "generate_note 440 (60 / 300) = Inl ValueError"
  by (rule generate_note_short, subst fast_beat_samples, simp)

text \<open>
  Claim C8 says that, for a duration of at least 0.42 s, the envelope is constant 0.7
  between the end of the decay ramp and the start of the release ramp. The envelope
  starts as \<open>np.ones_like(t)\<close> and only the three ramps are written into it, so the
  middle keeps the value 1: for a note of one second (44100 samples) the envelope at
  sample 20000, which lies after the decay (sample 5292) and before the release
  (sample 30870), is 1 and not the sustain level 0.7.
\<close>

theorem sustain_stays_at_one:
  "\<exists>t env. length t = 44100 \<and> note_envelope (length t) = Inr env
       \<and> generate_note 440 1 = Inr (map (\<lambda>x. x * 0.3) (map2 (*) (waveform 440 t) env))
       \<and> env ! 20000 = 1"
proof -
  let ?e = "take (44100 - 13230) (attack_ramp @ decay_ramp @ replicate (44100 - 5292) (1::real))
              @ release_ramp"
  have "13230 \<le> py_int (real SAMPLE_RATE * 1)"
    by (subst one_second_samples, simp)
  then obtain t env where t: "note_envelope (length t) = Inr env"
      "length t = nat (py_int (real SAMPLE_RATE * 1))"
      "generate_note 440 1 = Inr (map (\<lambda>x. x * 0.3) (map2 (*) (waveform 440 t) env))"
    using generate_note_long [of 1 440] by blast
  have len: "length t = 44100"
    unfolding t(2) one_second_samples by simp
  have "note_envelope 44100 = Inr ?e"
    by (rule note_envelope_long) simp
  then have env: "env = ?e"
    using t(1) len by simp
  have "?e ! 20000 = (attack_ramp @ decay_ramp @ replicate (44100 - 5292) (1::real)) ! 20000"
    by (simp add: nth_append length_attack_ramp length_decay_ramp)
  also have "\<dots> = 1"
    by (simp add: nth_append length_attack_ramp length_decay_ramp)
  finally have "env ! 20000 = 1"
    unfolding env .
  then show ?thesis
    using t(1,3) len by blast
qed

text \<open>
  Claim C10: every sample of a buffer that \<open>generate_note\<close> returns has absolute value
  at most 0.6. The four sines are weighted 1, 0.5, 0.3 and 0.2, the envelope lies between
  0 and 1, and the product is scaled by 0.3.
\<close>

theorem generate_note_amplitude:
  assumes "generate_note frequency duration = Inr buf" and "i < length buf"
  shows "\<bar>buf ! i\<bar> \<le> 0.6"
proof -
  obtain t env where env: "note_envelope (length t) = Inr env"
    and buf: "buf = map (\<lambda>x. x * 0.3) (map2 (*) (waveform frequency t) env)"
    using generate_note_Inr_cases [OF assms(1)] by blast
  have le: "length env = length t" using env by (rule length_note_envelope)
  have i: "i < length t" using assms(2) buf le by (simp add: length_waveform)
  have e: "0 \<le> env ! i \<and> env ! i \<le> 1"
    using note_envelope_range [OF env, of "env ! i"] i le by simp
  have w: "\<bar>waveform frequency t ! i\<bar> \<le> 2" using i by (rule waveform_bound)
  have b: "buf ! i = (waveform frequency t ! i * env ! i) * 0.3"
    using i le buf by (simp add: length_waveform)
  have "\<bar>waveform frequency t ! i * env ! i\<bar> \<le> 2 * 1"
    unfolding abs_mult using w e by (intro mult_mono) simp_all
  then have "\<bar>waveform frequency t ! i * env ! i\<bar> * 0.3 \<le> 2 * 0.3"
    by simp
  then show ?thesis
    unfolding b abs_mult by simp
qed

theorem generate_note_amplitude_witness:
  "\<exists>buf. generate_note 440 1 = Inr buf \<and> 0 < length buf \<and> \<bar>buf ! 0\<bar> \<le> 0.6"
proof -
  have "13230 \<le> py_int (real SAMPLE_RATE * 1)"
    by (subst one_second_samples, simp)
  then obtain buf where buf: "generate_note 440 1 = Inr buf"
    using generate_note_long [of 1 440] by blast
  have "int (length buf) = 44100"
    using length_generate_note [OF buf] by (simp only: one_second_samples)
  then have pos: "0 < length buf" by simp
  show ?thesis
    using buf pos generate_note_amplitude [OF buf pos] by blast
qed

section \<open>The claim about the metronome track\<close>

text \<open>
  Claim C9 says that each click of \<open>generate_metronome\<close> is the 50 ms, 1000 Hz sine
  with the envelope \<open>exp(-10t)\<close> at amplitude 0.3. The track is laid out as claimed
  (one zero-padded click per beat, silence elsewhere), but the click is not scaled:
  sample 1 of the one-beat track at 120 bpm is \<open>sin(2 pi 1000 t) exp(-10 t)\<close> at
  \<open>t = 0.05 / 2204\<close>, which differs from 0.3 times that value. The clicks of
  \<open>play_demonstration\<close> and of the demo of the graphical front end are scaled by 0.3.
\<close>

theorem metronome_click_at_full_amplitude:
  "\<exists>m. generate_metronome 120 1 = Inr m
       \<and> m ! 1 = sin (2 * pi * 1000 * (0.05 / 2204)) * exp (- 10 * (0.05 / 2204))
       \<and> m ! 1 \<noteq> 0.3 * (sin (2 * pi * 1000 * (0.05 / 2204)) * exp (- 10 * (0.05 / 2204)))"
proof -
  let ?m = "concat (replicate (nat 1) (metronome_click @ replicate (22050 - 2205) (0::real)))"
  have m: "generate_metronome 120 1 = Inr ?m"
    by (rule generate_metronome_layout [OF _ _ beat_samples_120]) simp_all
  have "?m ! 1 = metronome_click ! 1"
    by (simp add: nth_append length_metronome_click)
  then have v: "?m ! 1 = sin (2 * pi * 1000 * (0.05 / 2204)) * exp (- 10 * (0.05 / 2204))"
    by (simp only: metronome_click_nth1)
  have "?m ! 1 \<noteq> 0.3 * (sin (2 * pi * 1000 * (0.05 / 2204)) * exp (- 10 * (0.05 / 2204)))"
    unfolding v using click_sample_nonzero by simp
  then show ?thesis using m v by blast
qed

section \<open>The claims about note naming, loading and progression\<close>

text \<open>
  Claim C7 says that \<open>find_closest_note\<close> indexes the table anchored at A with the
  semitone offset \<open>s\<close> modulo 12, so that 440 Hz is named A4. The octave is computed
  with floor division of \<open>s + 9\<close>, as claimed, but the same \<open>s + 9\<close> is also used as
  the index into the table that starts at A: for 440 Hz the offset is 0, the index is 9,
  and the name returned is F#4.
\<close>

theorem find_closest_note_of_a4: "find_closest_note 440 = Inr ''F#4''"
  by (simp add: find_closest_note_def semitones_of_a4 bind_err_def py_str_int_def)

text \<open>
  Claim C5 says that \<open>load_progress\<close> installs the values of a well-formed saved record.
  The body of its \<open>try\<close> statement never calls \<open>json.load\<close>: it reads the name
  \<open>saved_progress\<close>, which nothing binds, so NameError is raised and caught by the bare
  \<open>except\<close>, and the defaults stay. Started on a file that holds a well-formed record
  with target tempo 200, highest tempo 130, one achievement and two unlocked positions,
  the trainer has the default record and tempo 120. (Start-up does not fail.)
\<close>

theorem load_progress_ignores_saved_record:
  "\<exists>st. trainer_init (Some (Parsed (JDict
            [(''total_score'', JInt 0),
             (''games_won'', JList [JStr ''Position 1 - A Minor Pentatonic at 120 BPM'']),
             (''target_bpm'', JInt 200),
             (''level_accuracies'',
                JDict [(''Position 1 - A Minor Pentatonic_120'', JList [JFloat 100])]),
             (''highest_bpm'', JInt 130),
             (''positions_unlocked'', JList [JStr ''position1'', JStr ''position2''])]))) = Inr st
        \<and> games_won (progress st) = []
        \<and> target_bpm (progress st) = 240
        \<and> level_accuracies (progress st) = []
        \<and> highest_bpm (progress st) = 120
        \<and> positions_unlocked (progress st) = [''position1'']
        \<and> current_bpm st = 120"
proof -
  obtain positions where "create_scale_positions = Inr positions"
    using scale_positions_value by blast
  then show ?thesis
    by (simp add: trainer_init_value fresh_trainer_def)
qed

text \<open>
  Claim C6 says that a pass with accuracy 100 below the target raises the tempo by the
  step of the front end (clamped to the target), unlocks at most the next position and
  raises the highest tempo reached. The command-line front end does so (lemma
  \<open>cli_perfect_pass_advances\<close>). The graphical front end reads the number of the
  position as the last word of its name, which is the word Pentatonic for every
  position: \<open>int\<close> raises ValueError after the achievement is recorded, so the tempo
  stays, nothing is unlocked and nothing is saved. (Its tempo step, when reached, would
  not update the highest tempo either.)
\<close>

theorem gui_perfect_pass_keeps_tempo:
  "\<exists>p1 positions st'.
      create_scale_position1 = Inr p1 \<and> create_scale_positions = Inr positions
      \<and> analyze_progress p1 120 24 24 (fresh_trainer positions None) = (st', Some ValueError)
      \<and> current_bpm st' = 120 \<and> highest_bpm (progress st') = 120
      \<and> positions_unlocked (progress st') = [''position1'']
      \<and> progress_file st' = None"
proof -
  obtain p1 p2 p3 p4 p5 where p: "create_scale_position1 = Inr p1"
    "scale_name p1 = ''Position 1 - A Minor Pentatonic''"
    "create_scale_positions
       = Inr [(''position1'', p1), (''position2'', p2), (''position3'', p3),
              (''position4'', p4), (''position5'', p5)]"
    using scale_positions_value by blast
  let ?ps = "[(''position1'', p1), (''position2'', p2), (''position3'', p3),
              (''position4'', p4), (''position5'', p5)]"
  let ?st = "fresh_trainer ?ps None"
  let ?st2 = "record_win (''Position 1 - A Minor Pentatonic'' @ '' at '' @ py_str_int 120 @ '' BPM'')
                (store_accuracy (''Position 1 - A Minor Pentatonic'' @ ''_'' @ py_str_int 120) 100 ?st)"
  have parse: "bind_err (py_list_item (py_split ''Position 1 - A Minor Pentatonic'') (- 1))
                 py_int_of_str = Inl ValueError"
    unfolding split_position1_name by (simp add: bind_err_def int_of_pentatonic)
  have run: "analyze_progress p1 120 24 24 ?st = (?st2, Some ValueError)"
    unfolding analyze_progress_def Let_def p(2) parse perfect_accuracy by simp
  have "current_bpm ?st2 = 120" "highest_bpm (progress ?st2) = 120"
    "positions_unlocked (progress ?st2) = [''position1'']" "progress_file ?st2 = None"
    by (simp_all add: record_win_def store_accuracy_def fresh_trainer_def)
  then show ?thesis
    using p(1,3) run by blast
qed

section \<open>The claims about pitch detection and scoring\<close>

text \<open>
  Claim C4: \<open>detect_fundamental_frequency\<close> returns no detection for every segment
  shorter than one capture chunk (1024 samples), and for every segment whose samples are
  all zero. In the second case the peak is zero, every normalised sample is nan, the
  autocorrelation is nan throughout and no comparison of the peak search holds; no
  exception is raised.
\<close>

theorem detect_short_or_silent:
  "(length audio_data < CHUNK_SIZE \<longrightarrow> detect_fundamental_frequency audio_data = Inr None)
   \<and> ((\<forall>x\<in>set audio_data. x = 0) \<longrightarrow> detect_fundamental_frequency audio_data = Inr None)"
proof (intro conjI impI)
  assume "length audio_data < CHUNK_SIZE"
  then show "detect_fundamental_frequency audio_data = Inr None"
    by (simp add: detect_fundamental_frequency_def)
next
  assume "\<forall>x\<in>set audio_data. x = 0"
  then show "detect_fundamental_frequency audio_data = Inr None"
    by (intro detect_silence) blast
qed

theorem detect_short_or_silent_witness:
  "length [0.5, - 0.25, 0.1 :: real] < CHUNK_SIZE
   \<and> detect_fundamental_frequency [0.5, - 0.25, 0.1] = Inr None
   \<and> CHUNK_SIZE \<le> length (replicate 2048 (0::real))
   \<and> detect_fundamental_frequency (replicate 2048 0) = Inr None"
proof -
  have short: "length [0.5, - 0.25, 0.1 :: real] < CHUNK_SIZE"
    by (simp add: CHUNK_SIZE_def)
  have silent: "\<forall>x\<in>set (replicate 2048 (0::real)). x = 0"
    by simp
  have long: "CHUNK_SIZE \<le> length (replicate 2048 (0::real))"
    by (simp add: CHUNK_SIZE_def)
  from detect_short_or_silent [of "[0.5, - 0.25, 0.1]"] short
  have a: "detect_fundamental_frequency [0.5, - 0.25, 0.1] = Inr None"
    by blast
  from detect_short_or_silent [of "replicate 2048 0"] silent
  have b: "detect_fundamental_frequency (replicate 2048 0) = Inr None"
    by blast
  show ?thesis
    using short a long b by blast
qed

text \<open>
  Claim C1 says that the scorer keeps one entry per beat window, a frequency or none, so
  that a beat without detection counts against its own expected note and later
  detections are not shifted. The collecting loop appends a frequency only when the
  detector returns one, so a silent beat leaves no entry. For the recording
  \<open>late_recording\<close> at 120 bpm the first beat after the count-in is silent and the second
  holds a period of 401 samples (109.98 Hz): the list of detections is that one frequency,
  it is paired with the first expected note of position 1 (A, 110.0 Hz) and counted as
  correct, although it is more than half a semitone away from the note expected on its
  own beat (C, 130.8 Hz).
\<close>

theorem missed_beat_shifts_detections:
  "\<exists>p1 chunks.
      create_scale_position1 = Inr p1
      \<and> beat_chunks (drop 88200 late_recording) 22050 = Inr chunks
      \<and> detect_fundamental_frequency (chunks ! 0) = Inr None
      \<and> detect_fundamental_frequency (chunks ! 1) = Inr (Some (44100 / 401))
      \<and> detect_notes late_recording 120 = Inr [44100 / 401]
      \<and> count_correct [44100 / 401] (expected_notes_of p1) = Inr 1
      \<and> \<not> within_tolerance (44100 / 401) (note_frequency (expected_notes_of p1 ! 1))"
proof -
  obtain p1 rest where p1: "create_scale_position1 = Inr p1"
    and ns: "scale_notes p1
         = \<lparr>note_fret = 5, note_string = 6, note_frequency = 82.41 * 2 powr (5 / 12),
             note_name = ''A''\<rparr>
           # \<lparr>note_fret = 8, note_string = 6, note_frequency = 82.41 * 2 powr (8 / 12),
               note_name = ''C''\<rparr>
           # rest"
    using position1_first_notes by blast
  let ?chunks = "replicate 22050 0 # impulse_beat
            # map (\<lambda>k. take 22050 (drop (k * 22050) playing_part)) [2..<25]"
  have c: "beat_chunks (drop 88200 late_recording) 22050 = Inr ?chunks"
    unfolding drop_count_in by (rule beat_chunks_value)
  have "detect_fundamental_frequency (replicate 22050 0) = Inr None"
    by (rule detect_silence) simp
  then have c0: "detect_fundamental_frequency (?chunks ! 0) = Inr None"
    by (simp del: upt_rec_numeral)
  have c1: "detect_fundamental_frequency (?chunks ! 1) = Inr (Some (44100 / 401))"
    by (simp add: detect_impulse_beat del: upt_rec_numeral)
  show ?thesis
    using p1 c c0 c1 detect_notes_late_recording count_correct_shifted [OF ns] by blast
qed

end
